theory Spec2Isabelle
  imports Complex_Main "HOL-Library.Word" "HOL-Library.AList"
begin

section \<open>Paint visualizer: the image generation request orchestrator\<close>

text \<open>
  A shallow embedding of the TypeScript sources of the paint visualizer:
  the paint database (\<^verbatim>\<open>database.ts\<close>), the AI image providers
  (\<^verbatim>\<open>ai-provider.ts\<close>) and the image processor with its Stable Diffusion
  integration. The sources hold two versions of the image processor; the one
  embedded here is the one that imports the AI providers and holds an
  \<^verbatim>\<open>aiConfig\<close>. The other one is its mock-only predecessor, which has no
  backend, builds its placeholder from the whole source image and tags the
  whole payload as thumbnail.
\<close>

subsection \<open>Strings, numbers, exceptions\<close>

text \<open>
  A JavaScript string is a sequence of UTF-16 code units; \<^verbatim>\<open>substring\<close>,
  \<^verbatim>\<open>startsWith\<close> and \<^verbatim>\<open>length\<close> count code units. A string is therefore a list
  of 16-bit words, and \<open>lit\<close> embeds an ASCII literal of the source.
  A \<^verbatim>\<open>number\<close> is a rational (every finite double is one), \<^verbatim>\<open>NaN\<close> or one of
  the two infinities; the code tests numbers for truthiness, passes them on and
  hands one to \<^verbatim>\<open>slice\<close>, it does no arithmetic with them. A clock reading
  (\<^verbatim>\<open>Date.now()\<close>, a \<^verbatim>\<open>Date\<close>) is an integer number of milliseconds.
\<close>

type_synonym jsstring = "16 word list"

datatype number = Num rat | NaN | PosInf | NegInf

definition lit :: "string \<Rightarrow> jsstring" where
  "lit s = map of_char s"

text \<open>\<^verbatim>\<open>s.substring(0, n)\<close> and \<^verbatim>\<open>s.startsWith(p)\<close>.\<close>

definition substring0 :: "jsstring \<Rightarrow> nat \<Rightarrow> jsstring" where
  "substring0 s n = take n s"

definition startsWith :: "jsstring \<Rightarrow> jsstring \<Rightarrow> bool" where
  "startsWith s p = (take (length p) s = p)"

text \<open>
  What is thrown: an \<^verbatim>\<open>Error\<close> with its message, or a value that is not an
  \<^verbatim>\<open>Error\<close> (the network layer may reject with anything).
\<close>

datatype exn = Error (message: jsstring) | NonError

text \<open>Truthiness of an optional string and the \<^verbatim>\<open>||\<close> defaults of the source.\<close>

definition truthy :: "jsstring option \<Rightarrow> bool" where
  "truthy s = (case s of None \<Rightarrow> False | Some v \<Rightarrow> v \<noteq> [])"

definition str_or :: "jsstring option \<Rightarrow> jsstring \<Rightarrow> jsstring" where
  "str_or s d = (case s of None \<Rightarrow> d | Some v \<Rightarrow> if v = [] then d else v)"

text \<open>\<^verbatim>\<open>x || d\<close> for an optional number: \<^verbatim>\<open>undefined\<close>, 0 and \<^verbatim>\<open>NaN\<close> are falsy.\<close>

definition num_or :: "number option \<Rightarrow> number \<Rightarrow> number" where
  "num_or x d =
     (case x of
        None \<Rightarrow> d
      | Some (Num q) \<Rightarrow> if q = 0 then d else Num q
      | Some NaN \<Rightarrow> d
      | Some PosInf \<Rightarrow> PosInf
      | Some NegInf \<Rightarrow> NegInf)"

subsection \<open>Data model (\<^verbatim>\<open>types.ts\<close>)\<close>

datatype PaintManufacturer =
  NipponPaint | KansaiPaint | SKKaken | AstecPaint | OtherManufacturer

datatype PaintType =
  Silicon | Fluorine | Urethane | Acrylic | Inorganic | RadicalControl

record PaintColor =
  color_name :: jsstring
  hex :: jsstring
  rgb :: "number \<times> number \<times> number"
  colorCode :: "jsstring option"

record Paint =
  paint_id :: jsstring
  productCode :: jsstring
  paint_name :: jsstring
  manufacturer :: PaintManufacturer
  paint_type :: PaintType
  color :: PaintColor
  pricePerSqm :: "number option"
  durabilityYears :: "number option"
  description :: "jsstring option"

record ImageProcessOptions =
  quality :: "number option"
  maxPatterns :: "number option"
  maxWidth :: "number option"
  maxHeight :: "number option"

record ImageProcessRequest =
  req_id :: jsstring
  originalImage :: jsstring
  paintProductCodes :: "jsstring list"
  options :: "ImageProcessOptions option"
  timestamp :: int

record GeneratedImage =
  img_id :: jsstring
  paint :: Paint
  imageData :: jsstring
  thumbnail :: "jsstring option"
  createdAt :: int

datatype Status = Pending | Processing | Completed | Failed

record ImageProcessResult =
  requestId :: jsstring
  status :: Status
  generatedImages :: "GeneratedImage list"
  error :: "jsstring option"
  processingTimeMs :: "int option"

subsection \<open>The paint database (\<^verbatim>\<open>database.ts\<close>)\<close>

text \<open>
  \<^verbatim>\<open>PaintDatabase.paints\<close> is a \<^verbatim>\<open>Map<string, Paint>\<close>; the lookups below only
  read it, so it is a partial function from product codes to paints.
\<close>

type_synonym PaintDatabase = "jsstring \<rightharpoonup> Paint"

definition getPaintByProductCode :: "PaintDatabase \<Rightarrow> jsstring \<Rightarrow> Paint option" where
  "getPaintByProductCode db code = db code"

text \<open>
  \<^verbatim>\<open>productCodes.map(code => this.getPaintByProductCode(code)).filter(p => p !== undefined)\<close>
\<close>

definition getPaintsByProductCodes :: "PaintDatabase \<Rightarrow> jsstring list \<Rightarrow> Paint list" where
  "getPaintsByProductCodes db productCodes =
     map the (filter (\<lambda>p. p \<noteq> None) (map (getPaintByProductCode db) productCodes))"

text \<open>
  The catalog resolution as the specification words it: walk the codes in input
  order, drop a code with no match, keep the paint of every other one.
\<close>

fun resolve_spec :: "PaintDatabase \<Rightarrow> jsstring list \<Rightarrow> Paint list" where
  "resolve_spec db [] = []"
| "resolve_spec db (c # cs) =
     (case db c of None \<Rightarrow> resolve_spec db cs | Some p \<Rightarrow> p # resolve_spec db cs)"

text \<open>The sample paints of \<^verbatim>\<open>initializeSampleData\<close> (names and descriptions are Japanese text).\<close>

definition paint_ND_050 :: Paint where
  "paint_ND_050 =
     \<lparr>paint_id = lit ''np-001'', productCode = lit ''ND-050'',
      paint_name = [0x30D5, 0x30A1, 0x30A4, 0x30F3, 0x30B7, 0x30EA, 0x30B3, 0x30F3, 0x30D5,
         0x30EC, 0x30C3, 0x30B7, 0x30E5],
      manufacturer = NipponPaint, paint_type = Silicon,
      color = \<lparr>color_name = [0x30AF, 0x30EA, 0x30FC, 0x30E0, 0x30DB, 0x30EF, 0x30A4,
         0x30C8],
               hex = lit ''#F5F5DC'', rgb = (Num 245, Num 245, Num 220), colorCode = Some (lit ''ND-050'')\<rparr>,
      pricePerSqm = Some (Num 2800), durabilityYears = Some (Num 12),
      description = Some [0x8010, 0x5019, 0x6027, 0x306B, 0x512A, 0x308C, 0x305F, 0x30B7,
         0x30EA, 0x30B3, 0x30F3, 0x6A39, 0x8102, 0x5857, 0x6599]\<rparr>"

definition paint_ND_101 :: Paint where
  "paint_ND_101 =
     \<lparr>paint_id = lit ''np-002'', productCode = lit ''ND-101'',
      paint_name = [0x30D1, 0x30FC, 0x30D5, 0x30A7, 0x30AF, 0x30C8, 0x30C8, 0x30C3, 0x30D7],
      manufacturer = NipponPaint, paint_type = RadicalControl,
      color = \<lparr>color_name = [0x30D4, 0x30E5, 0x30A2, 0x30DB, 0x30EF, 0x30A4, 0x30C8],
               hex = lit ''#FFFFFF'', rgb = (Num 255, Num 255, Num 255), colorCode = Some (lit ''ND-101'')\<rparr>,
      pricePerSqm = Some (Num 3200), durabilityYears = Some (Num 15),
      description = Some [0x30E9, 0x30B8, 0x30AB, 0x30EB, 0x5236, 0x5FA1, 0x578B, 0x9AD8,
         0x8010, 0x4E45, 0x5857, 0x6599]\<rparr>"

definition paint_KP_200 :: Paint where
  "paint_KP_200 =
     \<lparr>paint_id = lit ''kp-001'', productCode = lit ''KP-200'',
      paint_name = [0x30A2, 0x30EC, 0x30B9, 0x30C0, 0x30A4, 0x30CA, 0x30DF, 0x30C3, 0x30AF,
         0x0054, 0x004F, 0x0050],
      manufacturer = KansaiPaint, paint_type = Fluorine,
      color = \<lparr>color_name = [0x30A2, 0x30A4, 0x30DC, 0x30EA, 0x30FC],
               hex = lit ''#FFFFF0'', rgb = (Num 255, Num 255, Num 240), colorCode = Some (lit ''KP-200'')\<rparr>,
      pricePerSqm = Some (Num 4500), durabilityYears = Some (Num 18),
      description = Some [0x8D85, 0x9AD8, 0x8010, 0x4E45, 0x30D5, 0x30C3, 0x7D20, 0x6A39,
         0x8102, 0x5857, 0x6599]\<rparr>"

definition paint_KP_150 :: Paint where
  "paint_KP_150 =
     \<lparr>paint_id = lit ''kp-002'', productCode = lit ''KP-150'',
      paint_name = [0x30BB, 0x30E9, 0x004D, 0x30B7, 0x30EA, 0x30B3, 0x30F3, 0x0049, 0x0049,
         0x0049],
      manufacturer = KansaiPaint, paint_type = Silicon,
      color = \<lparr>color_name = [0x30D9, 0x30FC, 0x30B8, 0x30E5],
               hex = lit ''#F5F5DC'', rgb = (Num 245, Num 245, Num 220), colorCode = Some (lit ''KP-150'')\<rparr>,
      pricePerSqm = Some (Num 2900), durabilityYears = Some (Num 13),
      description = Some [0x9AD8, 0x6027, 0x80FD, 0x30B7, 0x30EA, 0x30B3, 0x30F3, 0x6A39,
         0x8102, 0x5857, 0x6599]\<rparr>"

definition paint_SK_300 :: Paint where
  "paint_SK_300 =
     \<lparr>paint_id = lit ''sk-001'', productCode = lit ''SK-300'',
      paint_name = [0x30A8, 0x30B9, 0x30B1, 0x30FC, 0x30D7, 0x30EC, 0x30DF, 0x30A2, 0x30E0,
         0x30B7, 0x30EA, 0x30B3, 0x30F3],
      manufacturer = SKKaken, paint_type = Silicon,
      color = \<lparr>color_name = [0x30E9, 0x30A4, 0x30C8, 0x30B0, 0x30EC, 0x30FC],
               hex = lit ''#D3D3D3'', rgb = (Num 211, Num 211, Num 211), colorCode = Some (lit ''SK-300'')\<rparr>,
      pricePerSqm = Some (Num 3000), durabilityYears = Some (Num 14),
      description = Some [0x30D7, 0x30EC, 0x30DF, 0x30A2, 0x30E0, 0x30B7, 0x30EA, 0x30B3,
         0x30F3, 0x5857, 0x6599]\<rparr>"

definition samplePaints :: "Paint list" where
  "samplePaints = [paint_ND_050, paint_ND_101, paint_KP_200, paint_KP_150, paint_SK_300]"

text \<open>\<^verbatim>\<open>samplePaints.forEach(paint => this.paints.set(paint.productCode, paint))\<close>\<close>

definition initializeSampleData :: PaintDatabase where
  "initializeSampleData = foldl (\<lambda>m p. m(productCode p \<mapsto> p)) Map.empty samplePaints"

subsection \<open>Thumbnails and the placeholder (\<^verbatim>\<open>image-processor.ts\<close>)\<close>

definition mockImageProcessing :: "jsstring \<Rightarrow> Paint \<Rightarrow> jsstring" where
  "mockImageProcessing origImage p =
     lit ''mock_processed_'' @ productCode p @ lit ''_'' @ substring0 origImage 20"

definition generateThumbnail :: "jsstring \<Rightarrow> jsstring" where
  "generateThumbnail imgData =
     (if startsWith imgData (lit ''http'') then imgData
      else lit ''thumbnail_'' @ substring0 imgData 50)"

subsection \<open>The AI image providers (\<^verbatim>\<open>ai-provider.ts\<close>)\<close>

text \<open>
  Modelled from the spec: the declaration of \<^verbatim>\<open>AIProcessingConfig\<close> is not among
  the sources. Its fields are the ones the provider code reads (\<^verbatim>\<open>provider\<close>,
  \<^verbatim>\<open>apiKey\<close>, \<^verbatim>\<open>modelName\<close>, \<^verbatim>\<open>steps\<close>, \<^verbatim>\<open>guidanceScale\<close>, \<^verbatim>\<open>strength\<close>),
  every one but the provider optional, as the \<^verbatim>\<open>||\<close> defaults of the code and
  the three "independently configurable" parameters of the specification say.
\<close>

record AIProcessingConfig =
  provider :: jsstring
  apiKey :: "jsstring option"
  modelName :: "jsstring option"
  steps :: "number option"
  guidanceScale :: "number option"
  strength :: "number option"

text \<open>
  The network is the environment of the model. A \<^verbatim>\<open>fetch\<close> followed by
  \<^verbatim>\<open>response.json()\<close> either throws or yields the parsed answer; the answer to
  the \<open>n\<close>-th poll of a prediction may differ from the one before.
\<close>

record submit_input =
  in_image :: jsstring
  in_prompt :: jsstring
  negative_prompt :: jsstring
  num_outputs :: number
  num_inference_steps :: number
  guidance_scale :: number
  prompt_strength :: number
  scheduler :: jsstring

record submit_body =
  version :: jsstring
  input :: submit_input

record post_request =
  post_url :: jsstring
  content_type :: jsstring
  post_authorization :: jsstring
  post_body :: submit_body

record created_prediction =
  created_id :: jsstring
  created_status :: jsstring

record post_response =
  ok :: bool
  statusText :: jsstring
  post_json :: "exn + created_prediction"

record prediction =
  pred_status :: jsstring
  pred_output :: "jsstring list option"
  pred_error :: "jsstring option"

record get_request =
  get_url :: jsstring
  get_authorization :: jsstring

record network =
  fetch_post :: "post_request \<Rightarrow> exn + post_response"
  fetch_get :: "get_request \<Rightarrow> nat \<Rightarrow> exn + prediction"

definition API_URL :: jsstring where
  "API_URL = lit ''https://api.replicate.com/v1/predictions''"

definition DEFAULT_MODEL :: jsstring where
  "DEFAULT_MODEL = lit ''stability-ai/stable-diffusion:'' @
     lit ''db21e45d3f7023abc2a46ee38a23973f6dce16bb082a930b0c49861f96d1e5bf''"

definition generateNegativePrompt :: jsstring where
  "generateNegativePrompt =
     lit ''blurry, low quality, distorted, deformed, ugly, bad anatomy, watermark, text''"

text \<open>A template literal prints an absent value as \<^verbatim>\<open>undefined\<close>.\<close>

definition template :: "jsstring option \<Rightarrow> jsstring" where
  "template s = (case s of None \<Rightarrow> lit ''undefined'' | Some v \<Rightarrow> v)"

definition maxAttempts :: nat where
  "maxAttempts = 60"

definition pollInterval :: nat where
  "pollInterval = 5000"

text \<open>
  \<^verbatim>\<open>waitForCompletion\<close>: what the loop does is recorded beside its result, a poll
  of the job as \<open>Poll attempt\<close> and a \<^verbatim>\<open>setTimeout\<close> wait as \<open>Sleep ms\<close>.
\<close>

datatype event = is_Poll: Poll nat | Sleep nat

definition poll_request :: "AIProcessingConfig \<Rightarrow> jsstring \<Rightarrow> get_request" where
  "poll_request cfg predictionId =
     \<lparr>get_url = API_URL @ lit ''/'' @ predictionId,
      get_authorization = lit ''Token '' @ template (apiKey cfg)\<rparr>"

function waitForCompletion_loop ::
  "AIProcessingConfig \<Rightarrow> network \<Rightarrow> jsstring \<Rightarrow> nat \<Rightarrow> event list \<times> (exn + jsstring)"
where
  "waitForCompletion_loop cfg net predictionId attempt =
     (if attempt < maxAttempts then
        (case fetch_get net (poll_request cfg predictionId) attempt of
           Inl e \<Rightarrow> ([Poll attempt], Inl e)
         | Inr prediction \<Rightarrow>
             if pred_status prediction = lit ''succeeded'' then
               (case pred_output prediction of
                  Some (url # rest) \<Rightarrow> ([Poll attempt], Inr url)
                | _ \<Rightarrow> ([Poll attempt], Inl (Error (lit ''No output image generated''))))
             else if pred_status prediction = lit ''failed'' then
               ([Poll attempt],
                Inl (Error (lit ''Image generation failed: '' @
                       str_or (pred_error prediction) (lit ''Unknown error''))))
             else
               (case waitForCompletion_loop cfg net predictionId (attempt + 1) of
                  (events, r) \<Rightarrow> (Poll attempt # Sleep pollInterval # events, r)))
      else ([], Inl (Error (lit ''Image generation timeout''))))"
  by pat_completeness auto
termination
  by (relation "measure (\<lambda>(cfg, net, predictionId, attempt). maxAttempts - attempt)") auto

definition waitForCompletion ::
  "AIProcessingConfig \<Rightarrow> network \<Rightarrow> jsstring \<Rightarrow> event list \<times> (exn + jsstring)"
where
  "waitForCompletion cfg net predictionId = waitForCompletion_loop cfg net predictionId 0"

text \<open>The request that \<^verbatim>\<open>ReplicateProvider.generateImage\<close> posts.\<close>

definition submit_request :: "AIProcessingConfig \<Rightarrow> jsstring \<Rightarrow> jsstring \<Rightarrow> post_request" where
  "submit_request cfg origImage prompt =
     \<lparr>post_url = API_URL,
      content_type = lit ''application/json'',
      post_authorization = lit ''Token '' @ template (apiKey cfg),
      post_body =
        \<lparr>version = str_or (modelName cfg) DEFAULT_MODEL,
         input =
           \<lparr>in_image = origImage,
            in_prompt = prompt,
            negative_prompt = generateNegativePrompt,
            num_outputs = Num 1,
            num_inference_steps = num_or (steps cfg) (Num 50),
            guidance_scale = num_or (guidanceScale cfg) (Num 7.5),
            prompt_strength = num_or (strength cfg) (Num 0.8),
            scheduler = lit ''DPMSolverMultistep''\<rparr>\<rparr>\<rparr>"

datatype AIImageProvider =
    ReplicateProvider AIProcessingConfig
  | StabilityAIProvider AIProcessingConfig
  | LocalProvider AIProcessingConfig

definition Replicate_generateImage ::
  "AIProcessingConfig \<Rightarrow> network \<Rightarrow> jsstring \<Rightarrow> Paint \<Rightarrow> jsstring \<Rightarrow> exn + jsstring"
where
  "Replicate_generateImage cfg net origImage p prompt =
     (if \<not> truthy (apiKey cfg) then Inl (Error (lit ''Replicate API key is required''))
      else
        (case fetch_post net (submit_request cfg origImage prompt) of
           Inl e \<Rightarrow> Inl e
         | Inr response \<Rightarrow>
             if \<not> ok response then
               Inl (Error (lit ''Replicate API error: '' @ statusText response))
             else
               (case post_json response of
                  Inl e \<Rightarrow> Inl e
                | Inr created \<Rightarrow> snd (waitForCompletion cfg net (created_id created)))))"

fun generateImage ::
  "AIImageProvider \<Rightarrow> network \<Rightarrow> jsstring \<Rightarrow> Paint \<Rightarrow> jsstring \<Rightarrow> exn + jsstring"
where
  "generateImage (ReplicateProvider cfg) net origImage p prompt =
     Replicate_generateImage cfg net origImage p prompt"
| "generateImage (StabilityAIProvider cfg) net origImage p prompt =
     (if \<not> truthy (apiKey cfg) then Inl (Error (lit ''Stability AI API key is required''))
      else Inl (Error (lit ''Stability AI provider not implemented yet'')))"
| "generateImage (LocalProvider cfg) net origImage p prompt =
     Inl (Error (lit ''Local provider not implemented yet''))"

fun isReady :: "AIImageProvider \<Rightarrow> bool" where
  "isReady (ReplicateProvider cfg) = truthy (apiKey cfg)"
| "isReady (StabilityAIProvider cfg) = truthy (apiKey cfg)"
| "isReady (LocalProvider cfg) = False"

definition createAIProvider :: "AIProcessingConfig \<Rightarrow> exn + AIImageProvider" where
  "createAIProvider cfg =
     (if provider cfg = lit ''replicate'' then Inr (ReplicateProvider cfg)
      else if provider cfg = lit ''stability-ai'' then Inr (StabilityAIProvider cfg)
      else if provider cfg = lit ''local'' then Inr (LocalProvider cfg)
      else Inl (Error (lit ''Unsupported AI provider: '' @ provider cfg)))"

text \<open>
  A poll that neither throws nor reports a terminal status: the loop waits and
  polls again.
\<close>

definition inProgress :: "exn + prediction \<Rightarrow> bool" where
  "inProgress r =
     (case r of Inl e \<Rightarrow> False
      | Inr p \<Rightarrow> pred_status p \<noteq> lit ''succeeded'' \<and> pred_status p \<noteq> lit ''failed'')"

text \<open>The events of \<open>k\<close> polls that all found the job in progress.\<close>

definition waited :: "nat \<Rightarrow> event list" where
  "waited k = concat (map (\<lambda>i. [Poll i, Sleep 5000]) [0..<k])"

subsection \<open>The image processor (\<^verbatim>\<open>image-processor.ts\<close>)\<close>

text \<open>
  What a generation job takes from outside: the answers of the network, the
  prompt builder, the id that \<^verbatim>\<open>generateImageId\<close> draws and the clock reading
  of \<^verbatim>\<open>new Date()\<close>. The prompt builder is \<^verbatim>\<open>generatePrompt\<close> of the prompt
  generator: a function of the paint, fixed by the configuration of the
  module-level generator, which an earlier caller may have replaced. Nothing
  below depends on the text of the prompt.
\<close>

record job_env =
  job_net :: network
  job_prompt :: "Paint \<Rightarrow> jsstring"
  job_imageId :: jsstring
  job_createdAt :: int

definition processWithAI ::
  "AIProcessingConfig option \<Rightarrow> job_env \<Rightarrow> jsstring \<Rightarrow> Paint \<Rightarrow> exn + jsstring"
where
  "processWithAI aiCfg env origImage p =
     (case aiCfg of
        None \<Rightarrow> Inl (Error (lit ''AI config not set''))
      | Some cfg \<Rightarrow>
          (case createAIProvider cfg of
             Inl e \<Rightarrow> Inl e
           | Inr prov \<Rightarrow>
               if \<not> isReady prov then Inl (Error (lit ''AI provider is not ready''))
               else generateImage prov (job_net env) origImage p (job_prompt env p)))"

definition generatePaintedImage ::
  "AIProcessingConfig option \<Rightarrow> job_env \<Rightarrow> jsstring \<Rightarrow> Paint \<Rightarrow> GeneratedImage"
where
  "generatePaintedImage aiCfg env origImage p =
     (let processedImage =
        (if (case aiCfg of None \<Rightarrow> False | Some cfg \<Rightarrow> truthy (apiKey cfg)) then
           (case processWithAI aiCfg env origImage p of
              Inr url \<Rightarrow> url
            | Inl e \<Rightarrow> mockImageProcessing origImage p)
         else mockImageProcessing origImage p)
      in \<lparr>img_id = job_imageId env, paint = p, imageData = processedImage,
          thumbnail = Some (generateThumbnail processedImage),
          createdAt = job_createdAt env\<rparr>)"

text \<open>
  \<^verbatim>\<open>xs.slice(0, end)\<close>. The end goes through \<^verbatim>\<open>ToIntegerOrInfinity\<close>: \<^verbatim>\<open>NaN\<close>
  is 0 and a finite number loses its fraction (truncation towards zero). A
  negative end counts from the back of the array, and the result is clamped to
  the array.
\<close>

definition trunc :: "rat \<Rightarrow> int" where
  "trunc q = (if q < 0 then \<lceil>q\<rceil> else \<lfloor>q\<rfloor>)"

definition slice0 :: "'a list \<Rightarrow> number \<Rightarrow> 'a list" where
  "slice0 xs e =
     (let len = int (length xs) in
      case e of
        NaN \<Rightarrow> take (nat (min 0 len)) xs
      | PosInf \<Rightarrow> take (nat len) xs
      | NegInf \<Rightarrow> take 0 xs
      | Num q \<Rightarrow>
          (let relativeEnd = trunc q;
               final = (if relativeEnd < 0 then max (len + relativeEnd) 0
                        else min relativeEnd len)
           in take (nat final) xs))"

text \<open>
  The message of the error that \<^verbatim>\<open>executeImageProcessing\<close> throws when no paint
  is found: 18 Japanese characters (in English: the paint of the given product
  number cannot be found).
\<close>

definition NO_PAINTS_MESSAGE :: jsstring where
  "NO_PAINTS_MESSAGE =
     [0x6307, 0x5B9A, 0x3055, 0x308C, 0x305F, 0x54C1, 0x756A, 0x306E, 0x5857, 0x6599,
      0x304C, 0x898B, 0x3064, 0x304B, 0x308A, 0x307E, 0x305B, 0x3093]"

text \<open>
  The first lines of \<^verbatim>\<open>executeImageProcessing\<close>: resolve the paints, throw when
  there is none, cut the list at \<^verbatim>\<open>request.options?.maxPatterns || paints.length\<close>.
\<close>

definition paintsToProcess :: "PaintDatabase \<Rightarrow> ImageProcessRequest \<Rightarrow> exn + Paint list" where
  "paintsToProcess db request =
     (let paints = getPaintsByProductCodes db (paintProductCodes request) in
      if length paints = 0 then Inl (Error NO_PAINTS_MESSAGE)
      else
        (let maxP = num_or (Option.bind (options request) maxPatterns)
                      (Num (of_nat (length paints)))
         in Inr (slice0 paints maxP)))"

text \<open>
  The \<^verbatim>\<open>for\<close> loop of \<^verbatim>\<open>executeImageProcessing\<close>, one job after the other; the
  job that runs when \<open>n\<close> images have been pushed takes its environment from
  \<open>jobs n\<close>.
\<close>

fun generateImages ::
  "AIProcessingConfig option \<Rightarrow> (nat \<Rightarrow> job_env) \<Rightarrow> jsstring \<Rightarrow> GeneratedImage list \<Rightarrow>
   Paint list \<Rightarrow> GeneratedImage list"
where
  "generateImages aiCfg jobs origImage generated [] = generated"
| "generateImages aiCfg jobs origImage generated (p # ps) =
     generateImages aiCfg jobs origImage
       (generated @ [generatePaintedImage aiCfg (jobs (length generated)) origImage p]) ps"

text \<open>
  The processor. Its two \<^verbatim>\<open>Map\<close>s keep insertion order and are association
  lists. A result is an object that \<^verbatim>\<open>processImage\<close> goes on changing after it
  has stored it, so the \<^verbatim>\<open>results\<close> map holds references into a store of result
  objects; \<open>next_ref\<close> is the first reference not yet allocated.
\<close>

type_synonym ref = nat

record ImageProcessor =
  processingQueue :: "(jsstring \<times> ImageProcessRequest) list"
  results :: "(jsstring \<times> ref) list"
  aiConfig :: "AIProcessingConfig option"
  heap :: "ref \<Rightarrow> ImageProcessResult"
  next_ref :: ref

text \<open>A new processor; the cells of the store hold a blank result until they are allocated.\<close>

definition new_ImageProcessor :: ImageProcessor where
  "new_ImageProcessor =
     \<lparr>processingQueue = [], results = [], aiConfig = None,
      heap = (\<lambda>r. \<lparr>requestId = [], status = Pending, generatedImages = [], error = None,
                    processingTimeMs = None\<rparr>),
      next_ref = 0\<rparr>"

text \<open>
  What a call of \<^verbatim>\<open>processImage\<close> takes from outside: the id that
  \<^verbatim>\<open>generateRequestId\<close> draws, the clock readings, the content of the paint
  database at the call, and the environments of its jobs.
\<close>

record call_env =
  new_requestId :: jsstring
  new_timestamp :: int
  startTime :: int
  endTime :: int
  database :: PaintDatabase
  jobs :: "nat \<Rightarrow> job_env"

text \<open>\<^verbatim>\<open>processImage\<close> up to its \<^verbatim>\<open>try\<close>: the request is queued, the result stored.\<close>

definition register_request ::
  "call_env \<Rightarrow> jsstring \<Rightarrow> jsstring list \<Rightarrow> ImageProcessOptions option \<Rightarrow> ImageProcessor \<Rightarrow>
   ImageProcessRequest \<times> ref \<times> ImageProcessor"
where
  "register_request env origImage codes opts s =
     (let request = \<lparr>req_id = new_requestId env, originalImage = origImage,
                      paintProductCodes = codes, options = opts,
                      timestamp = new_timestamp env\<rparr>;
          r = next_ref s;
          result = \<lparr>requestId = req_id request, status = Processing, generatedImages = [],
                     error = None, processingTimeMs = None\<rparr>
      in (request, r,
          s\<lparr>processingQueue := AList.update (req_id request) request (processingQueue s),
            heap := (heap s)(r := result),
            next_ref := Suc r,
            results := AList.update (req_id request) r (results s)\<rparr>))"

text \<open>The last two assignments of \<^verbatim>\<open>executeImageProcessing\<close>.\<close>

definition store_images :: "ref \<Rightarrow> GeneratedImage list \<Rightarrow> int \<Rightarrow> ImageProcessor \<Rightarrow> ImageProcessor" where
  "store_images r images ms s =
     s\<lparr>heap := (heap s)(r := (heap s r)\<lparr>generatedImages := images,
                                        processingTimeMs := Some ms\<rparr>)\<rparr>"

definition executeImageProcessing ::
  "call_env \<Rightarrow> ImageProcessRequest \<Rightarrow> ref \<Rightarrow> ImageProcessor \<Rightarrow> exn + ImageProcessor"
where
  "executeImageProcessing env request r s =
     (case paintsToProcess (database env) request of
        Inl e \<Rightarrow> Inl e
      | Inr ps \<Rightarrow>
          Inr (store_images r
                 (generateImages (aiConfig s) (jobs env) (originalImage request) [] ps)
                 (endTime env - startTime env) s))"

text \<open>The two branches after the \<^verbatim>\<open>await\<close> in \<^verbatim>\<open>processImage\<close>.\<close>

definition set_completed :: "ref \<Rightarrow> ImageProcessor \<Rightarrow> ImageProcessor" where
  "set_completed r s = s\<lparr>heap := (heap s)(r := (heap s r)\<lparr>status := Completed\<rparr>)\<rparr>"

definition set_failed :: "ref \<Rightarrow> exn \<Rightarrow> ImageProcessor \<Rightarrow> ImageProcessor" where
  "set_failed r e s =
     s\<lparr>heap := (heap s)(r := (heap s r)
         \<lparr>status := Failed,
          error := Some (case e of Error m \<Rightarrow> m | NonError \<Rightarrow> lit ''Unknown error'')\<rparr>)\<rparr>"

text \<open>
  \<^verbatim>\<open>processImage\<close>, run from the call to the return with nothing else in
  between. It returns the reference of the result and the processor after it.
\<close>

definition processImage ::
  "call_env \<Rightarrow> jsstring \<Rightarrow> jsstring list \<Rightarrow> ImageProcessOptions option \<Rightarrow> ImageProcessor \<Rightarrow>
   ref \<times> ImageProcessor"
where
  "processImage env origImage codes opts s =
     (case register_request env origImage codes opts s of
        (request, r, s1) \<Rightarrow>
          (case executeImageProcessing env request r s1 of
             Inr s2 \<Rightarrow> (r, set_completed r s2)
           | Inl e \<Rightarrow> (r, set_failed r e s1)))"

text \<open>The result that the call returns: the object behind the returned reference.\<close>

definition processImage_result ::
  "call_env \<Rightarrow> jsstring \<Rightarrow> jsstring list \<Rightarrow> ImageProcessOptions option \<Rightarrow> ImageProcessor \<Rightarrow>
   ImageProcessResult"
where
  "processImage_result env origImage codes opts s =
     (case processImage env origImage codes opts s of (r, s') \<Rightarrow> heap s' r)"

text \<open>
  The number of artifacts as the specification words it, for a finite
  \<^verbatim>\<open>maxPatterns\<close>: the smaller of the number of resolved paints and
  \<^verbatim>\<open>maxPatterns\<close>, where \<^verbatim>\<open>maxPatterns\<close> counts as the number of resolved paints
  when it is unset or not positive.
\<close>

definition spec_artifact_count :: "nat \<Rightarrow> rat option \<Rightarrow> rat" where
  "spec_artifact_count resolvedCount maxP =
     min (of_nat resolvedCount)
       (case maxP of None \<Rightarrow> of_nat resolvedCount
        | Some q \<Rightarrow> if q \<le> 0 then of_nat resolvedCount else q)"

text \<open>
  The number of artifacts as the amended wording has it: the smaller of the
  number of resolved paints and the integral part of \<^verbatim>\<open>maxPatterns\<close>, where
  \<^verbatim>\<open>maxPatterns\<close> counts as the number of resolved paints when it is unset, 0
  or \<^verbatim>\<open>NaN\<close> (and \<^verbatim>\<open>Infinity\<close> is above every number). It speaks of a
  \<^verbatim>\<open>maxPatterns\<close> that is not negative only.
\<close>

definition not_negative :: "number option \<Rightarrow> bool" where
  "not_negative maxP =
     (case maxP of
        None \<Rightarrow> True
      | Some (Num q) \<Rightarrow> 0 \<le> q
      | Some NaN \<Rightarrow> True
      | Some PosInf \<Rightarrow> True
      | Some NegInf \<Rightarrow> False)"

definition artifact_count :: "nat \<Rightarrow> number option \<Rightarrow> nat" where
  "artifact_count resolvedCount maxP =
     min resolvedCount
       (case maxP of
          None \<Rightarrow> resolvedCount
        | Some (Num q) \<Rightarrow> if q = 0 then resolvedCount else nat \<lfloor>q\<rfloor>
        | Some NaN \<Rightarrow> resolvedCount
        | Some PosInf \<Rightarrow> resolvedCount
        | Some NegInf \<Rightarrow> 0)"

definition setAIConfig :: "AIProcessingConfig \<Rightarrow> ImageProcessor \<Rightarrow> ImageProcessor" where
  "setAIConfig config s = s\<lparr>aiConfig := Some config\<rparr>"

text \<open>\<^verbatim>\<open>getResult\<close> hands out the stored reference; the result read through it is \<open>heap s r\<close>.\<close>

definition getResult :: "ImageProcessor \<Rightarrow> jsstring \<Rightarrow> ref option" where
  "getResult s rid = map_of (results s) rid"

text \<open>\<^verbatim>\<open>getStatus\<close>; \<open>None\<close> is the answer \<^verbatim>\<open>not_found\<close>.\<close>

definition getStatus :: "ImageProcessor \<Rightarrow> jsstring \<Rightarrow> Status option" where
  "getStatus s rid = (case map_of (results s) rid of None \<Rightarrow> None | Some r \<Rightarrow> Some (status (heap s r)))"

definition clearCache :: "ImageProcessor \<Rightarrow> ImageProcessor" where
  "clearCache s = s\<lparr>processingQueue := [], results := []\<rparr>"

record Statistics =
  totalRequests :: nat
  completedRequests :: nat
  failedRequests :: nat
  processingRequests :: nat

definition getStatistics :: "ImageProcessor \<Rightarrow> Statistics" where
  "getStatistics s =
     (let rs = map (\<lambda>(rid, r). heap s r) (results s) in
      \<lparr>totalRequests = length rs,
       completedRequests = length (filter (\<lambda>r. status r = Completed) rs),
       failedRequests = length (filter (\<lambda>r. status r = Failed) rs),
       processingRequests = length (filter (\<lambda>r. status r = Processing) rs)\<rparr>)"

subsection \<open>Calls in flight\<close>

text \<open>
  \<^verbatim>\<open>processImage\<close> is asynchronous: it suspends at every \<^verbatim>\<open>await\<close>, and until it
  resumes, other calls of the processor run and see the result it has stored.
  A call in flight is a task: its environment, its request, the reference of
  its result and where it stands, namely in the loop with the paints still to
  process and the images generated so far, with \<^verbatim>\<open>executeImageProcessing\<close>
  having thrown, with \<^verbatim>\<open>executeImageProcessing\<close> having returned, or settled
  (\<^verbatim>\<open>processImage\<close> has returned).
\<close>

datatype phase =
    Running "Paint list" "GeneratedImage list"
  | Threw exn
  | Returned
  | Settled

record task =
  task_env :: call_env
  task_request :: ImageProcessRequest
  task_result :: ref
  task_phase :: phase

record system =
  proc :: ImageProcessor
  tasks :: "task list"

definition initial_system :: system where
  "initial_system = \<lparr>proc = new_ImageProcessor, tasks = []\<rparr>"

text \<open>
  A call of \<^verbatim>\<open>processImage\<close> runs to its first \<^verbatim>\<open>await\<close>: the request is
  registered and the paints are resolved.
\<close>

definition call_processImage ::
  "call_env \<Rightarrow> jsstring \<Rightarrow> jsstring list \<Rightarrow> ImageProcessOptions option \<Rightarrow> system \<Rightarrow> system"
where
  "call_processImage env origImage codes opts sys =
     (case register_request env origImage codes opts (proc sys) of
        (request, r, s1) \<Rightarrow>
          \<lparr>proc = s1,
           tasks = tasks sys @
             [\<lparr>task_env = env, task_request = request, task_result = r,
               task_phase = (case paintsToProcess (database env) request of
                               Inl e \<Rightarrow> Threw e
                             | Inr ps \<Rightarrow> Running ps [])\<rparr>]\<rparr>)"

text \<open>
  A task resumes and runs to its next suspension: one job of the loop (it reads
  \<^verbatim>\<open>this.aiConfig\<close> as it is when the job starts, and writes nothing that the
  processor shares before it ends), the end of \<^verbatim>\<open>executeImageProcessing\<close>, or
  the branch of \<^verbatim>\<open>processImage\<close> after the \<^verbatim>\<open>await\<close>. These turns are finer than
  the ones of the code, where the first job starts in the turn of the call and
  the last push and the end of \<^verbatim>\<open>executeImageProcessing\<close> are one turn: other
  actions may come between them here, which allows more histories than the
  code has, not fewer.
\<close>

definition resume_task :: "task \<Rightarrow> ImageProcessor \<Rightarrow> task \<times> ImageProcessor" where
  "resume_task t s =
     (case task_phase t of
        Running [] generated \<Rightarrow>
          (t\<lparr>task_phase := Returned\<rparr>,
           store_images (task_result t) generated
             (endTime (task_env t) - startTime (task_env t)) s)
      | Running (p # ps) generated \<Rightarrow>
          (t\<lparr>task_phase := Running ps
                (generated @ [generatePaintedImage (aiConfig s)
                                (jobs (task_env t) (length generated))
                                (originalImage (task_request t)) p])\<rparr>, s)
      | Threw e \<Rightarrow> (t\<lparr>task_phase := Settled\<rparr>, set_failed (task_result t) e s)
      | Returned \<Rightarrow> (t\<lparr>task_phase := Settled\<rparr>, set_completed (task_result t) s)
      | Settled \<Rightarrow> (t, s))"

text \<open>
  What happens to the processor, one action at a time: a public method is
  called (the three reading methods change nothing; what they return is
  \<open>getResult\<close>, \<open>getStatus\<close> and \<open>getStatistics\<close> of the state), or the
  \<open>i\<close>-th call in flight resumes.
\<close>

datatype action =
    ProcessImage call_env jsstring "jsstring list" "ImageProcessOptions option"
  | Resume nat
  | SetAIConfig AIProcessingConfig
  | ClearCache
  | GetResult jsstring
  | GetStatus jsstring
  | GetStatistics

fun step :: "action \<Rightarrow> system \<Rightarrow> system" where
  "step (ProcessImage env origImage codes opts) sys =
     call_processImage env origImage codes opts sys"
| "step (Resume i) sys =
     (if i < length (tasks sys) then
        (case resume_task (tasks sys ! i) (proc sys) of
           (t, s) \<Rightarrow> \<lparr>proc = s, tasks = (tasks sys)[i := t]\<rparr>)
      else sys)"
| "step (SetAIConfig config) sys = sys\<lparr>proc := setAIConfig config (proc sys)\<rparr>"
| "step ClearCache sys = sys\<lparr>proc := clearCache (proc sys)\<rparr>"
| "step (GetResult rid) sys = sys"
| "step (GetStatus rid) sys = sys"
| "step GetStatistics sys = sys"

definition run :: "action list \<Rightarrow> system \<Rightarrow> system" where
  "run as sys = foldl (\<lambda>sys a. step a sys) sys as"

text \<open>An action that may take a stored result out of the store under the id \<open>rid\<close>.\<close>

fun displaces :: "jsstring \<Rightarrow> action \<Rightarrow> bool" where
  "displaces rid (ProcessImage env origImage codes opts) = (new_requestId env = rid)"
| "displaces rid ClearCache = True"
| "displaces rid a = False"

text \<open>
  What holds of the processor and its calls in flight at every moment: the
  store holds allocated references only; no allocated result is \<^verbatim>\<open>pending\<close>;
  the result of a call that has not settled is allocated and \<^verbatim>\<open>processing\<close>;
  no two calls share a result.
\<close>

definition wf_system :: "system \<Rightarrow> bool" where
  "wf_system sys \<longleftrightarrow>
     (\<forall>(rid, r) \<in> set (results (proc sys)). r < next_ref (proc sys))
     \<and> (\<forall>r < next_ref (proc sys). status (heap (proc sys) r) \<noteq> Pending)
     \<and> (\<forall>t \<in> set (tasks sys).
           task_result t < next_ref (proc sys)
           \<and> (task_phase t \<noteq> Settled \<longrightarrow>
                status (heap (proc sys) (task_result t)) = Processing))
     \<and> distinct (map task_result (tasks sys))"

subsection \<open>Example environments\<close>

text \<open>A configuration for the Replicate provider that leaves the numeric parameters out.\<close>

definition example_config :: AIProcessingConfig where
  "example_config =
     \<lparr>provider = lit ''replicate'', apiKey = Some (lit ''r8_key''), modelName = None,
      steps = None, guidanceScale = None, strength = None\<rparr>"

text \<open>
  A network that accepts every submission as prediction \<^verbatim>\<open>p1\<close>, answers the first
  \<open>k\<close> polls with status \<^verbatim>\<open>processing\<close> and every later one with \<open>p\<close>.
\<close>

definition answering :: "nat \<Rightarrow> prediction \<Rightarrow> network" where
  "answering k p =
     \<lparr>fetch_post = (\<lambda>req. Inr \<lparr>ok = True, statusText = lit ''Created'',
                              post_json = Inr \<lparr>created_id = lit ''p1'',
                                               created_status = lit ''starting''\<rparr>\<rparr>),
      fetch_get = (\<lambda>req i.
        if i < k then
          Inr \<lparr>pred_status = lit ''processing'', pred_output = None, pred_error = None\<rparr>
        else Inr p)\<rparr>"

text \<open>
  A job whose prediction succeeds at the second poll, a call on the sample
  database, options that set \<^verbatim>\<open>maxPatterns\<close>, and a job whose prediction never
  leaves \<^verbatim>\<open>processing\<close>.
\<close>

definition example_job :: job_env where
  "example_job =
     \<lparr>job_net = answering 1
         \<lparr>pred_status = lit ''succeeded'',
          pred_output = Some [lit ''https://replicate.delivery/out-0.png''],
          pred_error = None\<rparr>,
      job_prompt = (\<lambda>p. lit ''a house exterior''),
      job_imageId = lit ''img_1'',
      job_createdAt = 1700000000500\<rparr>"

definition example_env :: call_env where
  "example_env =
     \<lparr>new_requestId = lit ''req_1'', new_timestamp = 1700000000000,
      startTime = 1700000000001, endTime = 1700000000900,
      database = initializeSampleData, jobs = (\<lambda>i. example_job)\<rparr>"

definition example_options :: "int \<Rightarrow> ImageProcessOptions" where
  "example_options m =
     \<lparr>quality = Some (Num 90), maxPatterns = Some (Num (of_int m)), maxWidth = None,
      maxHeight = None\<rparr>"

definition fractional_options :: "rat \<Rightarrow> ImageProcessOptions" where
  "fractional_options q =
     \<lparr>quality = None, maxPatterns = Some (Num q), maxWidth = None, maxHeight = None\<rparr>"

definition stalled_job :: job_env where
  "stalled_job =
     example_job\<lparr>job_net := answering 60
       \<lparr>pred_status = lit ''processing'', pred_output = None, pred_error = None\<rparr>\<rparr>"

text \<open>
  A history: a call with two paints and a call with no paint are made; the
  second settles (failed), the first runs its two jobs, stores its images and
  settles (completed); a third call is made and is still in flight.
\<close>

definition example_actions :: "action list" where
  "example_actions =
     [ProcessImage example_env (lit ''http://x/house.jpg'') [lit ''ND-050'', lit ''KP-200''] None,
      ProcessImage (example_env\<lparr>new_requestId := lit ''req_2''\<rparr>) (lit ''http://x/house.jpg'')
        [lit ''NOPE''] None,
      Resume 1,
      Resume 0, Resume 0, Resume 0, Resume 0,
      ProcessImage (example_env\<lparr>new_requestId := lit ''req_3''\<rparr>) (lit ''http://x/house.jpg'')
        [lit ''ND-050''] None]"

section \<open>Properties\<close>

subsection \<open>Catalog resolution\<close>

lemma getPaints_Nil: "getPaintsByProductCodes db [] = []"
  by (simp add: getPaintsByProductCodes_def)

lemma getPaints_Cons:
  "getPaintsByProductCodes db (c # cs) =
     (case db c of None \<Rightarrow> getPaintsByProductCodes db cs
      | Some p \<Rightarrow> p # getPaintsByProductCodes db cs)"
  by (simp add: getPaintsByProductCodes_def getPaintByProductCode_def split: option.split)

lemma getPaints_append:
  "getPaintsByProductCodes db (xs @ ys) =
     getPaintsByProductCodes db xs @ getPaintsByProductCodes db ys"
  by (simp add: getPaintsByProductCodes_def)

lemma getPaints_resolve_spec: "getPaintsByProductCodes db cs = resolve_spec db cs"
  by (induction cs) (simp_all add: getPaints_Nil getPaints_Cons split: option.split)

lemma getPaints_replicate:
  "db c = Some p \<Longrightarrow> getPaintsByProductCodes db (replicate k c) = replicate k p"
  by (induction k) (simp_all add: getPaints_Nil getPaints_Cons)

lemma getPaints_count:
  "count_list (getPaintsByProductCodes db cs) p = length (filter (\<lambda>c. db c = Some p) cs)"
  by (induction cs) (auto simp: getPaints_Nil getPaints_Cons split: option.split)

text \<open>
  C5. For every sequence of product codes, catalog resolution returns the paints
  of the matching codes in input order (it is the left-to-right walk
  \<open>resolve_spec\<close>, and it distributes over concatenation of the input), drops
  the codes with no match (nothing but a paint of an input code is returned, and
  every matching input code contributes), and does not de-duplicate: a paint
  occurs in the result as often as codes that resolve to it occur in the input,
  so a matching code repeated \<open>k\<close> times yields \<open>k\<close> copies of its paint.
\<close>

theorem getPaintsByProductCodes_order_drop_nodedup:
  "getPaintsByProductCodes db cs = resolve_spec db cs
   \<and> getPaintsByProductCodes db (cs @ cs') =
       getPaintsByProductCodes db cs @ getPaintsByProductCodes db cs'
   \<and> set (getPaintsByProductCodes db cs) = {p. \<exists>c \<in> set cs. db c = Some p}
   \<and> count_list (getPaintsByProductCodes db cs) p =
       length (filter (\<lambda>c. db c = Some p) cs)
   \<and> (db c = Some p \<longrightarrow>
        getPaintsByProductCodes db (replicate k c) = replicate k p)
   \<and> (db c = None \<longrightarrow>
        getPaintsByProductCodes db (cs @ c # cs') = getPaintsByProductCodes db (cs @ cs'))"
proof -
  have "set (getPaintsByProductCodes db cs) = {p. \<exists>c \<in> set cs. db c = Some p}"
    by (induction cs) (auto simp: getPaints_Nil getPaints_Cons split: option.split)
  moreover have "db c = None \<longrightarrow>
      getPaintsByProductCodes db (cs @ c # cs') = getPaintsByProductCodes db (cs @ cs')"
    by (simp add: getPaints_append getPaints_Cons)
  ultimately show ?thesis
    using getPaints_resolve_spec getPaints_append getPaints_count getPaints_replicate
    by blast
qed

lemma sample_ND_050: "initializeSampleData (lit ''ND-050'') = Some paint_ND_050"
  by (simp add: initializeSampleData_def samplePaints_def paint_ND_050_def paint_ND_101_def
      paint_KP_200_def paint_KP_150_def paint_SK_300_def lit_def)

lemma sample_KP_200: "initializeSampleData (lit ''KP-200'') = Some paint_KP_200"
  by (simp add: initializeSampleData_def samplePaints_def paint_ND_050_def paint_ND_101_def
      paint_KP_200_def paint_KP_150_def paint_SK_300_def lit_def)

lemma sample_NOPE: "initializeSampleData (lit ''NOPE'') = None"
  by (simp add: initializeSampleData_def samplePaints_def paint_ND_050_def paint_ND_101_def
      paint_KP_200_def paint_KP_150_def paint_SK_300_def lit_def)

lemma sample_paints_differ: "paint_ND_050 \<noteq> paint_KP_200"
  by (simp add: paint_ND_050_def paint_KP_200_def lit_def)

theorem getPaintsByProductCodes_order_drop_nodedup_witness:
  "getPaintsByProductCodes initializeSampleData
     [lit ''ND-050'', lit ''NOPE'', lit ''KP-200'', lit ''ND-050'']
     = [paint_ND_050, paint_KP_200, paint_ND_050]
   \<and> getPaintsByProductCodes initializeSampleData (replicate 3 (lit ''ND-050''))
     = [paint_ND_050, paint_ND_050, paint_ND_050]
   \<and> getPaintsByProductCodes initializeSampleData ([lit ''KP-200''] @ lit ''NOPE'' # [])
     = [paint_KP_200]"
proof -
  note T = getPaintsByProductCodes_order_drop_nodedup
  have a: "getPaintsByProductCodes initializeSampleData
     [lit ''ND-050'', lit ''NOPE'', lit ''KP-200'', lit ''ND-050'']
     = [paint_ND_050, paint_KP_200, paint_ND_050]"
    by (simp add: T [THEN conjunct1] sample_ND_050 sample_KP_200 sample_NOPE)
  have "initializeSampleData (lit ''ND-050'') = Some paint_ND_050 \<longrightarrow>
      getPaintsByProductCodes initializeSampleData (replicate 3 (lit ''ND-050''))
      = replicate 3 paint_ND_050"
    by (rule T [THEN conjunct2, THEN conjunct2, THEN conjunct2, THEN conjunct2, THEN conjunct1])
  then have b: "getPaintsByProductCodes initializeSampleData (replicate 3 (lit ''ND-050''))
     = [paint_ND_050, paint_ND_050, paint_ND_050]"
    by (simp add: sample_ND_050 numeral_3_eq_3)
  have "initializeSampleData (lit ''NOPE'') = None \<longrightarrow>
     getPaintsByProductCodes initializeSampleData ([lit ''KP-200''] @ lit ''NOPE'' # [])
     = getPaintsByProductCodes initializeSampleData ([lit ''KP-200''] @ [])"
    by (rule T [THEN conjunct2, THEN conjunct2, THEN conjunct2, THEN conjunct2, THEN conjunct2])
  moreover have "getPaintsByProductCodes initializeSampleData [lit ''KP-200''] = [paint_KP_200]"
    by (simp add: T [THEN conjunct1] sample_KP_200)
  ultimately have c:
    "getPaintsByProductCodes initializeSampleData ([lit ''KP-200''] @ lit ''NOPE'' # [])
     = [paint_KP_200]"
    by (simp add: sample_NOPE)
  show ?thesis
    using a b c by (intro conjI)
qed

subsection \<open>Thumbnail derivation\<close>

text \<open>
  C6. Thumbnail derivation is a function of the artifact payload alone: a payload
  that starts with the URL scheme prefix \<^verbatim>\<open>http\<close> is its own thumbnail; for any
  other payload the thumbnail is the marker \<^verbatim>\<open>thumbnail_\<close> followed by the first
  50 code units of the payload (all of it when it is shorter), so the thumbnail
  is never longer than 60 code units.
\<close>

theorem generateThumbnail_url_or_marked_prefix:
  "(startsWith payload (lit ''http'') \<longrightarrow> generateThumbnail payload = payload)
   \<and> (\<not> startsWith payload (lit ''http'') \<longrightarrow>
        generateThumbnail payload = lit ''thumbnail_'' @ take 50 payload
        \<and> length (generateThumbnail payload) = 10 + min 50 (length payload))
   \<and> (startsWith payload (lit ''http'') \<longleftrightarrow> (\<exists>rest. payload = lit ''http'' @ rest))"
proof -
  have "startsWith payload (lit ''http'') \<longleftrightarrow> (\<exists>rest. payload = lit ''http'' @ rest)"
  proof
    assume "startsWith payload (lit ''http'')"
    then have "payload = lit ''http'' @ drop (length (lit ''http'')) payload"
      by (metis startsWith_def append_take_drop_id)
    then show "\<exists>rest. payload = lit ''http'' @ rest" ..
  next
    assume "\<exists>rest. payload = lit ''http'' @ rest"
    then show "startsWith payload (lit ''http'')"
      by (auto simp: startsWith_def)
  qed
  moreover have "length (lit ''thumbnail_'' @ take 50 payload) = 10 + min 50 (length payload)"
    by (simp add: lit_def min.commute)
  ultimately show ?thesis
    by (simp add: generateThumbnail_def substring0_def)
qed

theorem generateThumbnail_url_or_marked_prefix_witness:
  "generateThumbnail (lit ''http://x/house.jpg'') = lit ''http://x/house.jpg''
   \<and> generateThumbnail
       (lit ''mock_processed_ND-050_data:image/jpeg;base64,/9j/4AAQSkZJRgABAQ'')
     = lit ''thumbnail_mock_processed_ND-050_data:image/jpeg;base64,/9j/4''
   \<and> generateThumbnail (lit ''abc'') = lit ''thumbnail_abc''"
proof -
  note T = generateThumbnail_url_or_marked_prefix
  have a: "generateThumbnail (lit ''http://x/house.jpg'') = lit ''http://x/house.jpg''"
    using T [of "lit ''http://x/house.jpg''", THEN conjunct1]
    by (simp add: startsWith_def lit_def)
  have b: "generateThumbnail
       (lit ''mock_processed_ND-050_data:image/jpeg;base64,/9j/4AAQSkZJRgABAQ'')
     = lit ''thumbnail_'' @
       take 50 (lit ''mock_processed_ND-050_data:image/jpeg;base64,/9j/4AAQSkZJRgABAQ'')"
    using T [of "lit ''mock_processed_ND-050_data:image/jpeg;base64,/9j/4AAQSkZJRgABAQ''",
        THEN conjunct2, THEN conjunct1]
    by (simp add: startsWith_def lit_def)
  have c: "generateThumbnail (lit ''abc'') = lit ''thumbnail_'' @ take 50 (lit ''abc'')"
    using T [of "lit ''abc''", THEN conjunct2, THEN conjunct1]
    by (simp add: startsWith_def lit_def)
  show ?thesis unfolding a b c by (simp add: lit_def)
qed

subsection \<open>The completion waiter\<close>

declare waitForCompletion_loop.simps [simp del]

lemma loop_timeout:
  "\<not> attempt < maxAttempts \<Longrightarrow>
   waitForCompletion_loop cfg net pid attempt = ([], Inl (Error (lit ''Image generation timeout'')))"
  by (simp add: waitForCompletion_loop.simps)

lemma loop_inProgress:
  "attempt < maxAttempts \<Longrightarrow> inProgress (fetch_get net (poll_request cfg pid) attempt) \<Longrightarrow>
   waitForCompletion_loop cfg net pid attempt =
     (Poll attempt # Sleep pollInterval # fst (waitForCompletion_loop cfg net pid (Suc attempt)),
      snd (waitForCompletion_loop cfg net pid (Suc attempt)))"
  by (subst waitForCompletion_loop.simps)
     (auto simp: inProgress_def split: sum.splits prod.splits)

lemma loop_skip:
  assumes "a \<le> k" "k \<le> maxAttempts"
    and "\<forall>i. a \<le> i \<and> i < k \<longrightarrow> inProgress (fetch_get net (poll_request cfg pid) i)"
  shows "waitForCompletion_loop cfg net pid a =
     (concat (map (\<lambda>i. [Poll i, Sleep 5000]) [a..<k]) @ fst (waitForCompletion_loop cfg net pid k),
      snd (waitForCompletion_loop cfg net pid k))"
  using assms(1,3)
proof (induction a rule: inc_induct)
  case base
  show ?case by simp
next
  case (step n)
  have "n < maxAttempts" using step.hyps assms(2) by simp
  moreover have "inProgress (fetch_get net (poll_request cfg pid) n)"
    using step.prems step.hyps by simp
  ultimately show ?case
    using step.IH step.prems step.hyps
    by (simp add: loop_inProgress upt_conv_Cons pollInterval_def)
qed

lemma wait_skip:
  assumes "k \<le> maxAttempts"
    and "\<forall>i<k. inProgress (fetch_get net (poll_request cfg pid) i)"
  shows "waitForCompletion cfg net pid =
     (waited k @ fst (waitForCompletion_loop cfg net pid k),
      snd (waitForCompletion_loop cfg net pid k))"
  unfolding waitForCompletion_def waited_def
  using loop_skip [of 0 k net cfg pid] assms by simp

lemma wait_all_inProgress:
  assumes "\<forall>i<60. inProgress (fetch_get net (poll_request cfg pid) i)"
  shows "waitForCompletion cfg net pid =
          (waited 60, Inl (Error (lit ''Image generation timeout'')))"
  using wait_skip [of 60 net cfg pid] assms by (simp add: maxAttempts_def loop_timeout)

lemma loop_polls_bound:
  "length (filter is_Poll (fst (waitForCompletion_loop cfg net pid a))) \<le> maxAttempts - a"
proof (induction cfg net pid a rule: waitForCompletion_loop.induct)
  case (1 cfg net pid a)
  show ?case
  proof (cases "a < maxAttempts")
    case False
    then show ?thesis by (simp add: loop_timeout)
  next
    case lt: True
    show ?thesis
    proof (cases "inProgress (fetch_get net (poll_request cfg pid) a)")
      case True
      then obtain p where p: "fetch_get net (poll_request cfg pid) a = Inr p"
        "pred_status p \<noteq> lit ''succeeded''" "pred_status p \<noteq> lit ''failed''"
        by (auto simp: inProgress_def split: sum.splits)
      have "length (filter is_Poll (fst (waitForCompletion_loop cfg net pid (a + 1)))) \<le> maxAttempts - (a + 1)"
        using "1.IH" [OF lt p] .
      then show ?thesis using lt True by (simp add: loop_inProgress)
    next
      case False
      then have "fst (waitForCompletion_loop cfg net pid a) = [Poll a]"
        using lt
        by (subst waitForCompletion_loop.simps)
           (auto simp: inProgress_def split: sum.splits option.splits list.splits)
      then show ?thesis using lt by simp
    qed
  qed
qed

lemma loop_sleeps:
  "Sleep ms \<in> set (fst (waitForCompletion_loop cfg net pid a)) \<Longrightarrow> ms = 5000"
proof (induction cfg net pid a rule: waitForCompletion_loop.induct)
  case (1 cfg net pid a)
  show ?case
  proof (cases "a < maxAttempts")
    case False
    then show ?thesis using "1.prems" by (simp add: loop_timeout)
  next
    case lt: True
    show ?thesis
    proof (cases "inProgress (fetch_get net (poll_request cfg pid) a)")
      case True
      then obtain p where p: "fetch_get net (poll_request cfg pid) a = Inr p"
        "pred_status p \<noteq> lit ''succeeded''" "pred_status p \<noteq> lit ''failed''"
        by (auto simp: inProgress_def split: sum.splits)
      show ?thesis using "1.IH" [OF lt p] "1.prems" lt True
        by (auto simp: loop_inProgress pollInterval_def)
    next
      case False
      then have "fst (waitForCompletion_loop cfg net pid a) = [Poll a]"
        using lt
        by (subst waitForCompletion_loop.simps)
           (auto simp: inProgress_def split: sum.splits option.splits list.splits)
      then show ?thesis using "1.prems" by simp
    qed
  qed
qed

lemma loop_terminal:
  assumes "k < maxAttempts" "fetch_get net (poll_request cfg pid) k = Inr p"
  shows "(pred_status p = lit ''succeeded'' \<and> pred_output p = Some (url # rest) \<longrightarrow>
           waitForCompletion_loop cfg net pid k = ([Poll k], Inr url))
       \<and> (pred_status p = lit ''succeeded'' \<and> (pred_output p = None \<or> pred_output p = Some []) \<longrightarrow>
           waitForCompletion_loop cfg net pid k =
             ([Poll k], Inl (Error (lit ''No output image generated''))))
       \<and> (pred_status p = lit ''failed'' \<longrightarrow>
           waitForCompletion_loop cfg net pid k =
             ([Poll k], Inl (Error (lit ''Image generation failed: '' @
                                     str_or (pred_error p) (lit ''Unknown error'')))))"
proof -
  have ne: "lit ''failed'' \<noteq> lit ''succeeded''" by (simp add: lit_def)
  show ?thesis
    using assms ne
    by (subst (1 2 3) waitForCompletion_loop.simps) auto
qed

text \<open>
  C4. The completion waiter polls the job at most 60 times and every wait between
  two polls is 5000 ms. If the first \<open>k < 60\<close> polls find the job in progress
  and poll \<open>k\<close> answers \<^verbatim>\<open>succeeded\<close> with a non-empty output, the waiter returns
  the first element of the output; if it answers \<^verbatim>\<open>succeeded\<close> with no output
  (absent or empty), the waiter fails with \<^verbatim>\<open>No output image generated\<close>; if it
  answers \<^verbatim>\<open>failed\<close>, the waiter fails with \<^verbatim>\<open>Image generation failed: \<close> followed
  by the backend's error text (\<^verbatim>\<open>Unknown error\<close> when there is none). In each case
  it has polled \<open>k + 1\<close> times and slept \<open>k\<close> times. If all 60 polls find the job
  in progress, the waiter fails with \<^verbatim>\<open>Image generation timeout\<close> after 60 polls
  and 60 waits.
\<close>

theorem waitForCompletion_outcomes:
  "(k < 60 \<and> (\<forall>i<k. inProgress (fetch_get net (poll_request cfg pid) i))
      \<and> fetch_get net (poll_request cfg pid) k = Inr p \<longrightarrow>
      (pred_status p = lit ''succeeded'' \<and> pred_output p = Some (url # rest) \<longrightarrow>
         waitForCompletion cfg net pid = (waited k @ [Poll k], Inr url))
    \<and> (pred_status p = lit ''succeeded'' \<and> (pred_output p = None \<or> pred_output p = Some []) \<longrightarrow>
         waitForCompletion cfg net pid =
           (waited k @ [Poll k], Inl (Error (lit ''No output image generated''))))
    \<and> (pred_status p = lit ''failed'' \<longrightarrow>
         waitForCompletion cfg net pid =
           (waited k @ [Poll k],
            Inl (Error (lit ''Image generation failed: '' @
                         str_or (pred_error p) (lit ''Unknown error''))))))
   \<and> ((\<forall>i<60. inProgress (fetch_get net (poll_request cfg pid) i)) \<longrightarrow>
        waitForCompletion cfg net pid =
          (waited 60, Inl (Error (lit ''Image generation timeout''))))
   \<and> length (filter is_Poll (fst (waitForCompletion cfg net pid))) \<le> 60
   \<and> (\<forall>ms. Sleep ms \<in> set (fst (waitForCompletion cfg net pid)) \<longrightarrow> ms = 5000)"
proof (intro conjI impI allI)
  assume "\<forall>i<60. inProgress (fetch_get net (poll_request cfg pid) i)"
  then show "waitForCompletion cfg net pid =
      (waited 60, Inl (Error (lit ''Image generation timeout'')))"
    using wait_skip [of 60 net cfg pid] by (simp add: maxAttempts_def loop_timeout)
next
  show "length (filter is_Poll (fst (waitForCompletion cfg net pid))) \<le> 60"
    using loop_polls_bound [of cfg net pid 0]
    by (simp add: waitForCompletion_def maxAttempts_def)
next
  fix ms assume "Sleep ms \<in> set (fst (waitForCompletion cfg net pid))"
  then show "ms = 5000" by (auto simp: waitForCompletion_def dest: loop_sleeps)
next
  assume a: "k < 60 \<and> (\<forall>i<k. inProgress (fetch_get net (poll_request cfg pid) i))
      \<and> fetch_get net (poll_request cfg pid) k = Inr p"
  then have w: "waitForCompletion cfg net pid =
     (waited k @ fst (waitForCompletion_loop cfg net pid k),
      snd (waitForCompletion_loop cfg net pid k))"
    using wait_skip [of k net cfg pid] by (simp add: maxAttempts_def)
  have t: "k < maxAttempts" using a by (simp add: maxAttempts_def)
  note T = loop_terminal [OF t, of net cfg pid p]
  {
    assume "pred_status p = lit ''succeeded'' \<and> pred_output p = Some (url # rest)"
    then show "waitForCompletion cfg net pid = (waited k @ [Poll k], Inr url)"
      using a w T by simp
  }
  {
    assume "pred_status p = lit ''succeeded'' \<and> (pred_output p = None \<or> pred_output p = Some [])"
    then show "waitForCompletion cfg net pid =
           (waited k @ [Poll k], Inl (Error (lit ''No output image generated'')))"
      using a w T by simp
  }
  {
    assume "pred_status p = lit ''failed''"
    then show "waitForCompletion cfg net pid =
           (waited k @ [Poll k],
            Inl (Error (lit ''Image generation failed: '' @
                         str_or (pred_error p) (lit ''Unknown error''))))"
      using a w T by simp
  }
qed

lemma answering_inProgress:
  "i < k \<Longrightarrow> inProgress (fetch_get (answering k p) req i)"
  by (simp add: answering_def inProgress_def lit_def)

lemma answering_at: "fetch_get (answering k p) req k = Inr p"
  by (simp add: answering_def)

theorem waitForCompletion_outcomes_witness:
  "waitForCompletion example_config
     (answering 2 \<lparr>pred_status = lit ''succeeded'',
                    pred_output = Some [lit ''http://img/1.png'', lit ''http://img/2.png''],
                    pred_error = None\<rparr>) (lit ''p1'')
     = ([Poll 0, Sleep 5000, Poll 1, Sleep 5000, Poll 2], Inr (lit ''http://img/1.png''))
   \<and> waitForCompletion example_config
     (answering 1 \<lparr>pred_status = lit ''succeeded'', pred_output = Some [],
                    pred_error = None\<rparr>) (lit ''p1'')
     = ([Poll 0, Sleep 5000, Poll 1], Inl (Error (lit ''No output image generated'')))
   \<and> waitForCompletion example_config
     (answering 0 \<lparr>pred_status = lit ''failed'', pred_output = None,
                    pred_error = Some (lit ''CUDA out of memory'')\<rparr>) (lit ''p1'')
     = ([Poll 0], Inl (Error (lit ''Image generation failed: '' @ lit ''CUDA out of memory'')))
   \<and> waitForCompletion example_config
     (answering 60 \<lparr>pred_status = lit ''succeeded'', pred_output = None,
                     pred_error = None\<rparr>) (lit ''p1'')
     = (waited 60, Inl (Error (lit ''Image generation timeout'')))
   \<and> length (waited 60) = 120"
proof -
  have w2: "waited 2 = [Poll 0, Sleep 5000, Poll 1, Sleep 5000]"
    and w1: "waited 1 = [Poll 0, Sleep 5000]" and w0: "waited 0 = []"
    by (simp_all add: waited_def upt_rec)
  have len: "length (waited 60) = 120"
    by (simp add: waited_def length_concat comp_def sum_list_triv)
  have a: "waitForCompletion example_config
     (answering 2 \<lparr>pred_status = lit ''succeeded'',
                    pred_output = Some [lit ''http://img/1.png'', lit ''http://img/2.png''],
                    pred_error = None\<rparr>) (lit ''p1'')
     = (waited 2 @ [Poll 2], Inr (lit ''http://img/1.png''))"
    using waitForCompletion_outcomes [of 2 "answering 2 \<lparr>pred_status = lit ''succeeded'',
         pred_output = Some [lit ''http://img/1.png'', lit ''http://img/2.png''],
         pred_error = None\<rparr>" example_config "lit ''p1''" _
       "lit ''http://img/1.png''" "[lit ''http://img/2.png'']"]
    by (simp add: answering_inProgress answering_at)
  have b: "waitForCompletion example_config
     (answering 1 \<lparr>pred_status = lit ''succeeded'', pred_output = Some [],
                    pred_error = None\<rparr>) (lit ''p1'')
     = (waited 1 @ [Poll 1], Inl (Error (lit ''No output image generated'')))"
    using waitForCompletion_outcomes [of 1 "answering 1 \<lparr>pred_status = lit ''succeeded'',
         pred_output = Some [], pred_error = None\<rparr>" example_config "lit ''p1''"]
    by (simp add: answering_inProgress answering_at)
  have c: "waitForCompletion example_config
     (answering 0 \<lparr>pred_status = lit ''failed'', pred_output = None,
                    pred_error = Some (lit ''CUDA out of memory'')\<rparr>) (lit ''p1'')
     = (waited 0 @ [Poll 0],
        Inl (Error (lit ''Image generation failed: '' @ lit ''CUDA out of memory'')))"
  proof -
    have "str_or (Some (lit ''CUDA out of memory'')) (lit ''Unknown error'') = lit ''CUDA out of memory''"
      by (simp add: str_or_def lit_def)
    then show ?thesis
    using waitForCompletion_outcomes [of 0 "answering 0 \<lparr>pred_status = lit ''failed'',
         pred_output = None, pred_error = Some (lit ''CUDA out of memory'')\<rparr>"
       example_config "lit ''p1''"]
    by (simp add: answering_at)
  qed
  have d: "waitForCompletion example_config
     (answering 60 \<lparr>pred_status = lit ''succeeded'', pred_output = None,
                     pred_error = None\<rparr>) (lit ''p1'')
     = (waited 60, Inl (Error (lit ''Image generation timeout'')))"
    using waitForCompletion_outcomes [of 0 "answering 60 \<lparr>pred_status = lit ''succeeded'',
         pred_output = None, pred_error = None\<rparr>" example_config "lit ''p1''"]
    by (simp add: answering_inProgress)
  show ?thesis
    using a b c d len by (simp only: w2 w1 w0 append.simps)
qed

subsection \<open>The submit request of the remote backend\<close>

lemma loop_reads_polls_only:
  "fetch_get net = fetch_get net' \<Longrightarrow>
   waitForCompletion_loop cfg net pid a = waitForCompletion_loop cfg net' pid a"
proof (induction cfg net pid a rule: waitForCompletion_loop.induct)
  case (1 cfg net pid a)
  show ?case
  proof (cases "a < maxAttempts")
    case False
    then show ?thesis by (simp add: loop_timeout)
  next
    case lt: True
    show ?thesis
    proof (cases "inProgress (fetch_get net (poll_request cfg pid) a)")
      case True
      then obtain p where p: "fetch_get net (poll_request cfg pid) a = Inr p"
        "pred_status p \<noteq> lit ''succeeded''" "pred_status p \<noteq> lit ''failed''"
        by (auto simp: inProgress_def split: sum.splits)
      have "waitForCompletion_loop cfg net pid (a + 1) = waitForCompletion_loop cfg net' pid (a + 1)"
        using "1.IH" [OF lt p] "1.prems" by simp
      moreover have "inProgress (fetch_get net' (poll_request cfg pid) a)"
        using True "1.prems" by simp
      ultimately show ?thesis using lt True by (simp add: loop_inProgress)
    next
      case False
      then show ?thesis
        using lt "1.prems"
        by (subst (1 2) waitForCompletion_loop.simps)
           (auto simp: inProgress_def split: sum.splits option.splits list.splits)
    qed
  qed
qed

lemma generateImage_posts_submit_request:
  "fetch_post net (submit_request cfg img prompt) = fetch_post net' (submit_request cfg img prompt)
   \<Longrightarrow> fetch_get net = fetch_get net' \<Longrightarrow>
   Replicate_generateImage cfg net img p prompt = Replicate_generateImage cfg net' img p prompt"
  using loop_reads_polls_only [of net net']
  by (simp add: Replicate_generateImage_def waitForCompletion_def split: sum.splits)

text \<open>
  The body that \<^verbatim>\<open>ReplicateProvider.generateImage\<close> posts always has
  \<^verbatim>\<open>num_outputs = 1\<close>. When the configuration leaves \<^verbatim>\<open>steps\<close>,
  \<^verbatim>\<open>guidanceScale\<close> or \<^verbatim>\<open>strength\<close> out, the body carries 50, 7.5 and 0.8 for
  \<^verbatim>\<open>num_inference_steps\<close>, \<^verbatim>\<open>guidance_scale\<close> and \<^verbatim>\<open>prompt_strength\<close>; a truthy
  value that the configuration gives is the one the body carries; a configured
  0 or \<^verbatim>\<open>NaN\<close> is falsy, and \<^verbatim>\<open>||\<close> puts the default in its place; and each of
  the three depends on its own configuration field only. This request is the
  one that \<^verbatim>\<open>generateImage\<close> posts: what the network answers to any other
  submission has no effect on its result.
\<close>

lemma submit_request_parameters:
  "num_outputs (input (post_body (submit_request cfg img prompt))) = Num 1
   \<and> (steps cfg = None \<longrightarrow>
        num_inference_steps (input (post_body (submit_request cfg img prompt))) = Num 50)
   \<and> (guidanceScale cfg = None \<longrightarrow>
        guidance_scale (input (post_body (submit_request cfg img prompt))) = Num 7.5)
   \<and> (strength cfg = None \<longrightarrow>
        prompt_strength (input (post_body (submit_request cfg img prompt))) = Num 0.8)
   \<and> (steps cfg = Some (Num s) \<and> s \<noteq> 0 \<longrightarrow>
        num_inference_steps (input (post_body (submit_request cfg img prompt))) = Num s)
   \<and> (guidanceScale cfg = Some (Num g) \<and> g \<noteq> 0 \<longrightarrow>
        guidance_scale (input (post_body (submit_request cfg img prompt))) = Num g)
   \<and> (strength cfg = Some (Num t) \<and> t \<noteq> 0 \<longrightarrow>
        prompt_strength (input (post_body (submit_request cfg img prompt))) = Num t)
   \<and> (steps cfg = Some (Num 0) \<or> steps cfg = Some NaN \<longrightarrow>
        num_inference_steps (input (post_body (submit_request cfg img prompt))) = Num 50)
   \<and> (guidanceScale cfg = Some (Num 0) \<or> guidanceScale cfg = Some NaN \<longrightarrow>
        guidance_scale (input (post_body (submit_request cfg img prompt))) = Num 7.5)
   \<and> (strength cfg = Some (Num 0) \<or> strength cfg = Some NaN \<longrightarrow>
        prompt_strength (input (post_body (submit_request cfg img prompt))) = Num 0.8)
   \<and> num_inference_steps
        (input (post_body (submit_request (cfg\<lparr>guidanceScale := g', strength := t'\<rparr>) img prompt)))
      = num_inference_steps (input (post_body (submit_request cfg img prompt)))
   \<and> guidance_scale
        (input (post_body (submit_request (cfg\<lparr>steps := s', strength := t'\<rparr>) img prompt)))
      = guidance_scale (input (post_body (submit_request cfg img prompt)))
   \<and> prompt_strength
        (input (post_body (submit_request (cfg\<lparr>steps := s', guidanceScale := g'\<rparr>) img prompt)))
      = prompt_strength (input (post_body (submit_request cfg img prompt)))
   \<and> (fetch_post net (submit_request cfg img prompt)
          = fetch_post net' (submit_request cfg img prompt)
        \<and> fetch_get net = fetch_get net' \<longrightarrow>
        generateImage (ReplicateProvider cfg) net img p prompt
          = generateImage (ReplicateProvider cfg) net' img p prompt)"
proof -
  have "fetch_post net (submit_request cfg img prompt)
          = fetch_post net' (submit_request cfg img prompt)
        \<and> fetch_get net = fetch_get net' \<longrightarrow>
        generateImage (ReplicateProvider cfg) net img p prompt
          = generateImage (ReplicateProvider cfg) net' img p prompt"
    using generateImage_posts_submit_request [of net cfg img prompt net' p] by simp
  then show ?thesis
    by (auto simp: submit_request_def num_or_def)
qed

text \<open>
  C7. The body always has \<^verbatim>\<open>num_outputs = 1\<close> and the three defaults are 50, 7.5
  and 0.8, but not every value of the configuration overrides them. The README
  gives the range of \<^verbatim>\<open>strength\<close> as 0.0 to 1.0; with \<^verbatim>\<open>strength: 0\<close> set, the
  body that the code posts carries \<^verbatim>\<open>prompt_strength = 0.8\<close>, the default, and not
  the configured 0: \<^verbatim>\<open>this.config.strength || 0.8\<close> takes the falsy 0 for an
  absent field. The same holds of \<^verbatim>\<open>steps: 0\<close> and \<^verbatim>\<open>guidanceScale: 0\<close>.
\<close>

theorem submit_request_zero_strength:
  "strength (example_config\<lparr>strength := Some (Num 0)\<rparr>) = Some (Num 0)
   \<and> prompt_strength (input (post_body
        (submit_request (example_config\<lparr>strength := Some (Num 0)\<rparr>) img prompt))) = Num 0.8
   \<and> prompt_strength (input (post_body
        (submit_request (example_config\<lparr>strength := Some (Num 0)\<rparr>) img prompt))) \<noteq> Num 0
   \<and> num_inference_steps (input (post_body
        (submit_request (example_config\<lparr>steps := Some (Num 0)\<rparr>) img prompt))) = Num 50
   \<and> guidance_scale (input (post_body
        (submit_request (example_config\<lparr>guidanceScale := Some (Num 0)\<rparr>) img prompt))) = Num 7.5
   \<and> prompt_strength (input (post_body
        (submit_request (example_config\<lparr>strength := Some (Num 0.5)\<rparr>) img prompt))) = Num 0.5
   \<and> num_outputs (input (post_body
        (submit_request (example_config\<lparr>strength := Some (Num 0)\<rparr>) img prompt))) = Num 1"
  by (simp add: submit_request_def num_or_def example_config_def)

subsection \<open>The request orchestrator\<close>

lemma generateImages_length:
  "length (generateImages aiCfg js img acc ps) = length acc + length ps"
  by (induction ps arbitrary: acc) simp_all

lemma generateImages_paint:
  "map paint (generateImages aiCfg js img acc ps) = map paint acc @ ps"
  by (induction ps arbitrary: acc) (simp_all add: generatePaintedImage_def Let_def)

lemma generateImages_nth_old:
  "i < length acc \<Longrightarrow> generateImages aiCfg js img acc ps ! i = acc ! i"
  by (induction ps arbitrary: acc) (simp_all add: nth_append)

lemma generateImages_nth_new:
  "i < length ps \<Longrightarrow>
   generateImages aiCfg js img acc ps ! (length acc + i) =
     generatePaintedImage aiCfg (js (length acc + i)) img (ps ! i)"
proof (induction ps arbitrary: acc i)
  case Nil
  then show ?case by simp
next
  case (Cons p ps)
  show ?case
  proof (cases i)
    case 0
    then show ?thesis by (simp add: generateImages_nth_old)
  next
    case (Suc j)
    then have "j < length ps" using Cons.prems by simp
    from Cons.IH [OF this, of "acc @ [generatePaintedImage aiCfg (js (length acc)) img p]"]
    show ?thesis using Suc by simp
  qed
qed

lemma processImage_result_eq:
  "processImage_result env origImage codes opts s =
     (case paintsToProcess (database env)
             \<lparr>req_id = new_requestId env, originalImage = origImage,
              paintProductCodes = codes, options = opts, timestamp = new_timestamp env\<rparr> of
        Inl e \<Rightarrow>
          \<lparr>requestId = new_requestId env, status = Failed, generatedImages = [],
           error = Some (case e of Error m \<Rightarrow> m | NonError \<Rightarrow> lit ''Unknown error''),
           processingTimeMs = None\<rparr>
      | Inr ps \<Rightarrow>
          \<lparr>requestId = new_requestId env, status = Completed,
           generatedImages = generateImages (aiConfig s) (jobs env) origImage [] ps,
           error = None, processingTimeMs = Some (endTime env - startTime env)\<rparr>)"
  by (simp add: processImage_result_def processImage_def register_request_def
      executeImageProcessing_def store_images_def set_completed_def set_failed_def Let_def
      split: sum.split)

lemma paintsToProcess_eq:
  "paintsToProcess db \<lparr>req_id = rid, originalImage = origImage,
              paintProductCodes = codes, options = opts, timestamp = ts\<rparr> =
     (if getPaintsByProductCodes db codes = [] then Inl (Error NO_PAINTS_MESSAGE)
      else Inr (slice0 (getPaintsByProductCodes db codes)
                  (num_or (Option.bind opts maxPatterns)
                     (Num (of_nat (length (getPaintsByProductCodes db codes)))))))"
  by (simp add: paintsToProcess_def Let_def)

lemma trunc_of_int: "trunc (of_int m) = m"
  by (simp add: trunc_def)

lemma trunc_of_nat: "trunc (of_nat n) = int n"
  by (simp add: trunc_def)

lemma trunc_nonneg: "0 \<le> q \<Longrightarrow> trunc q = \<lfloor>q\<rfloor>"
  by (simp add: trunc_def)

lemma trunc_numerals:
  "trunc 0 = 0" "trunc 1 = 1" "trunc (numeral n) = numeral n" "trunc (- 1) = - 1"
  "trunc (- numeral n) = - numeral n" "trunc (1 / 2) = 0" "trunc (5 / 2) = 2"
  using trunc_of_int [of 0] trunc_of_int [of 1] trunc_of_int [of "numeral n"]
    trunc_of_int [of "- 1"] trunc_of_int [of "- numeral n"]
  by (simp_all add: trunc_def floor_eq_iff)

lemma slice0_length_le: "length (slice0 xs e) \<le> length xs"
  by (cases e) (simp_all add: slice0_def Let_def)

lemma slice0_all: "slice0 xs (Num (of_nat (length xs))) = xs"
  by (simp add: slice0_def trunc_of_nat)

lemma slice0_of_int:
  "slice0 xs (Num (of_int m)) =
     take (nat (if m < 0 then max (int (length xs) + m) 0 else min m (int (length xs)))) xs"
  by (simp add: slice0_def trunc_of_int Let_def)

lemma paintsToProcess_no_options:
  "paintsToProcess db \<lparr>req_id = rid, originalImage = origImage,
              paintProductCodes = codes, options = None, timestamp = ts\<rparr> =
     (if getPaintsByProductCodes db codes = [] then Inl (Error NO_PAINTS_MESSAGE)
      else Inr (getPaintsByProductCodes db codes))"
  by (simp add: paintsToProcess_def Let_def num_or_def slice0_all)

lemma slice0_not_negative:
  assumes "not_negative maxP"
  shows "slice0 xs (num_or maxP (Num (of_nat (length xs))))
         = take (artifact_count (length xs) maxP) xs"
proof (cases maxP)
  case None
  then show ?thesis by (simp add: num_or_def artifact_count_def slice0_all)
next
  case (Some v)
  show ?thesis
  proof (cases v)
    case (Num q)
    show ?thesis
    proof (cases "q = 0")
      case True
      then show ?thesis using Some Num by (simp add: num_or_def artifact_count_def slice0_all)
    next
      case False
      then have q: "0 \<le> q" using assms Some Num by (simp add: not_negative_def)
      then have "0 \<le> \<lfloor>q\<rfloor>" by simp
      then have "nat (min \<lfloor>q\<rfloor> (int (length xs))) = min (length xs) (nat \<lfloor>q\<rfloor>)"
        by (simp add: min_def) linarith
      then show ?thesis
        using Some Num False q
        by (simp add: num_or_def artifact_count_def slice0_def trunc_nonneg Let_def)
    qed
  next
    case NaN
    then show ?thesis using Some by (simp add: num_or_def artifact_count_def slice0_all)
  next
    case PosInf
    then show ?thesis using Some by (simp add: num_or_def artifact_count_def slice0_def)
  next
    case NegInf
    then show ?thesis using assms Some by (simp add: not_negative_def)
  qed
qed

lemma example_resolved:
  "getPaintsByProductCodes (database example_env)
     [lit ''ND-050'', lit ''KP-200'', lit ''NOPE'', lit ''ND-050'']
   = [paint_ND_050, paint_KP_200, paint_ND_050]"
  "getPaintsByProductCodes (database example_env) [lit ''ND-050''] = [paint_ND_050]"
  "getPaintsByProductCodes (database example_env) [lit ''NOPE''] = []"
  by (simp_all add: example_env_def getPaints_Cons getPaints_Nil sample_ND_050 sample_KP_200
      sample_NOPE)

text \<open>
  C1 (as amended). For every call of \<^verbatim>\<open>processImage\<close> whose product codes resolve
  to at least one paint and whose \<^verbatim>\<open>options.maxPatterns\<close> is unset, \<^verbatim>\<open>NaN\<close> or not
  negative, the returned result has status \<^verbatim>\<open>completed\<close>, its
  \<^verbatim>\<open>generatedImages\<close> has length min(resolvedCount, integral part of
  maxPatterns), where \<^verbatim>\<open>maxPatterns\<close> counts as resolvedCount when it is unset,
  0 or \<^verbatim>\<open>NaN\<close>, and the paint of the i-th generated image is the i-th resolved
  paint.
\<close>

theorem processImage_completed_images:
  assumes "getPaintsByProductCodes (database env) codes \<noteq> []"
    and "not_negative (Option.bind opts maxPatterns)"
  shows "status (processImage_result env origImage codes opts s) = Completed
    \<and> length (generatedImages (processImage_result env origImage codes opts s)) =
        artifact_count (length (getPaintsByProductCodes (database env) codes))
          (Option.bind opts maxPatterns)
    \<and> map paint (generatedImages (processImage_result env origImage codes opts s)) =
        take (artifact_count (length (getPaintsByProductCodes (database env) codes))
               (Option.bind opts maxPatterns))
          (getPaintsByProductCodes (database env) codes)"
proof -
  let ?paints = "getPaintsByProductCodes (database env) codes"
  let ?n = "artifact_count (length ?paints) (Option.bind opts maxPatterns)"
  have ps: "paintsToProcess (database env)
      \<lparr>req_id = new_requestId env, originalImage = origImage,
       paintProductCodes = codes, options = opts, timestamp = new_timestamp env\<rparr>
     = Inr (take ?n ?paints)"
    using assms by (simp add: paintsToProcess_eq slice0_not_negative)
  have "?n \<le> length ?paints"
    by (simp add: artifact_count_def)
  then show ?thesis
    by (simp add: processImage_result_eq ps generateImages_length generateImages_paint)
qed

theorem processImage_completed_images_witness:
  "status (processImage_result example_env (lit ''http://x/house.jpg'')
      [lit ''ND-050'', lit ''KP-200'', lit ''NOPE'', lit ''ND-050'']
      (Some (example_options 2)) new_ImageProcessor) = Completed
   \<and> map paint (generatedImages (processImage_result example_env (lit ''http://x/house.jpg'')
      [lit ''ND-050'', lit ''KP-200'', lit ''NOPE'', lit ''ND-050'']
      (Some (example_options 2)) new_ImageProcessor)) = [paint_ND_050, paint_KP_200]
   \<and> map paint (generatedImages (processImage_result example_env (lit ''http://x/house.jpg'')
      [lit ''ND-050'', lit ''KP-200'', lit ''NOPE'', lit ''ND-050'']
      None new_ImageProcessor)) = [paint_ND_050, paint_KP_200, paint_ND_050]
   \<and> map paint (generatedImages (processImage_result example_env (lit ''http://x/house.jpg'')
      [lit ''ND-050'', lit ''KP-200'', lit ''NOPE'', lit ''ND-050'']
      (Some (example_options 0)) new_ImageProcessor)) = [paint_ND_050, paint_KP_200, paint_ND_050]
   \<and> map paint (generatedImages (processImage_result example_env (lit ''http://x/house.jpg'')
      [lit ''ND-050'', lit ''KP-200'', lit ''NOPE'', lit ''ND-050'']
      (Some (fractional_options (5 / 2))) new_ImageProcessor)) = [paint_ND_050, paint_KP_200]
   \<and> map paint (generatedImages (processImage_result example_env (lit ''http://x/house.jpg'')
      [lit ''ND-050'', lit ''KP-200'', lit ''NOPE'', lit ''ND-050'']
      (Some (fractional_options (1 / 2))) new_ImageProcessor)) = []"
proof -
  have ne: "getPaintsByProductCodes (database example_env)
     [lit ''ND-050'', lit ''KP-200'', lit ''NOPE'', lit ''ND-050''] \<noteq> []"
    by (simp add: example_resolved)
  have o2: "not_negative (Option.bind (Some (example_options 2)) maxPatterns)"
    and o0: "not_negative (Option.bind (Some (example_options 0)) maxPatterns)"
    and on: "not_negative (Option.bind (None :: ImageProcessOptions option) maxPatterns)"
    and of1: "not_negative (Option.bind (Some (fractional_options (5 / 2))) maxPatterns)"
    and of2: "not_negative (Option.bind (Some (fractional_options (1 / 2))) maxPatterns)"
    by (simp_all add: example_options_def fractional_options_def not_negative_def)
  have fl: "\<lfloor>5 / 2 :: rat\<rfloor> = 2" "\<lfloor>1 / 2 :: rat\<rfloor> = 0"
    by (simp_all add: floor_eq_iff)
  show ?thesis
    using processImage_completed_images [OF ne o2, of "lit ''http://x/house.jpg''" new_ImageProcessor]
      processImage_completed_images [OF ne o0, of "lit ''http://x/house.jpg''" new_ImageProcessor]
      processImage_completed_images [OF ne on, of "lit ''http://x/house.jpg''" new_ImageProcessor]
      processImage_completed_images [OF ne of1, of "lit ''http://x/house.jpg''" new_ImageProcessor]
      processImage_completed_images [OF ne of2, of "lit ''http://x/house.jpg''" new_ImageProcessor]
    by (simp add: example_resolved example_options_def fractional_options_def
        artifact_count_def fl)
qed

text \<open>
  The claim as first stated lets every \<^verbatim>\<open>maxPatterns \<le> 0\<close> count as resolvedCount
  and has min(resolvedCount, maxPatterns) images otherwise. A negative
  \<^verbatim>\<open>maxPatterns\<close> is truthy, so \<^verbatim>\<open>||\<close> keeps it and \<^verbatim>\<open>slice(0, -1)\<close> drops the last
  resolved paint: with one resolved paint and \<^verbatim>\<open>maxPatterns = -1\<close> the request
  completes with no image, not with one. And \<^verbatim>\<open>slice\<close> drops the fraction of its
  end: with three resolved paints and \<^verbatim>\<open>maxPatterns = 2.5\<close> the request completes
  with two images, and with one resolved paint and \<^verbatim>\<open>maxPatterns = 0.5\<close> with none.
\<close>

theorem processImage_maxPatterns_counterexample:
  "length (getPaintsByProductCodes (database example_env) [lit ''ND-050'']) = 1
   \<and> status (processImage_result example_env (lit ''http://x/house.jpg'') [lit ''ND-050'']
        (Some (example_options (- 1))) new_ImageProcessor) = Completed
   \<and> length (generatedImages (processImage_result example_env (lit ''http://x/house.jpg'')
        [lit ''ND-050''] (Some (example_options (- 1))) new_ImageProcessor)) = 0
   \<and> of_nat (length (generatedImages (processImage_result example_env
        (lit ''http://x/house.jpg'') [lit ''ND-050''] (Some (example_options (- 1)))
        new_ImageProcessor))) \<noteq> spec_artifact_count 1 (Some (- 1))
   \<and> status (processImage_result example_env (lit ''http://x/house.jpg'') [lit ''ND-050'']
        (Some (fractional_options (1 / 2))) new_ImageProcessor) = Completed
   \<and> length (generatedImages (processImage_result example_env (lit ''http://x/house.jpg'')
        [lit ''ND-050''] (Some (fractional_options (1 / 2))) new_ImageProcessor)) = 0
   \<and> of_nat (length (generatedImages (processImage_result example_env
        (lit ''http://x/house.jpg'') [lit ''ND-050''] (Some (fractional_options (1 / 2)))
        new_ImageProcessor))) \<noteq> spec_artifact_count 1 (Some (1 / 2))
   \<and> length (getPaintsByProductCodes (database example_env)
        [lit ''ND-050'', lit ''KP-200'', lit ''NOPE'', lit ''ND-050'']) = 3
   \<and> length (generatedImages (processImage_result example_env (lit ''http://x/house.jpg'')
        [lit ''ND-050'', lit ''KP-200'', lit ''NOPE'', lit ''ND-050'']
        (Some (fractional_options (5 / 2))) new_ImageProcessor)) = 2
   \<and> of_nat (length (generatedImages (processImage_result example_env
        (lit ''http://x/house.jpg'')
        [lit ''ND-050'', lit ''KP-200'', lit ''NOPE'', lit ''ND-050'']
        (Some (fractional_options (5 / 2))) new_ImageProcessor)))
       \<noteq> spec_artifact_count 3 (Some (5 / 2))"
  by (simp add: processImage_result_eq paintsToProcess_eq example_resolved
      example_options_def fractional_options_def num_or_def slice0_def trunc_numerals
      generateImages_length spec_artifact_count_def)

text \<open>
  C2 (as amended). For every call of \<^verbatim>\<open>processImage\<close> whose product codes resolve
  to no paint, the returned result has status \<^verbatim>\<open>failed\<close>, no generated image,
  and as error the non-empty message \<open>NO_PAINTS_MESSAGE\<close> (the Japanese sentence of
  the source); and this is the only way a request fails: the status is
  \<^verbatim>\<open>failed\<close> exactly when no paint resolves, \<^verbatim>\<open>completed\<close> otherwise.
\<close>

theorem processImage_failed_only_without_paints:
  "(getPaintsByProductCodes (database env) codes = [] \<longrightarrow>
      status (processImage_result env origImage codes opts s) = Failed
      \<and> generatedImages (processImage_result env origImage codes opts s) = []
      \<and> error (processImage_result env origImage codes opts s) = Some NO_PAINTS_MESSAGE)
   \<and> NO_PAINTS_MESSAGE \<noteq> []
   \<and> (status (processImage_result env origImage codes opts s) = Failed
        \<longleftrightarrow> getPaintsByProductCodes (database env) codes = [])
   \<and> (status (processImage_result env origImage codes opts s) = Completed
        \<longleftrightarrow> getPaintsByProductCodes (database env) codes \<noteq> [])"
  by (simp add: processImage_result_eq paintsToProcess_eq NO_PAINTS_MESSAGE_def)

theorem processImage_failed_only_without_paints_witness:
  "status (processImage_result example_env (lit ''http://x/house.jpg'') [lit ''NOPE'']
      None new_ImageProcessor) = Failed
   \<and> generatedImages (processImage_result example_env (lit ''http://x/house.jpg'') [lit ''NOPE'']
      None new_ImageProcessor) = []
   \<and> error (processImage_result example_env (lit ''http://x/house.jpg'') [lit ''NOPE'']
      None new_ImageProcessor) = Some NO_PAINTS_MESSAGE
   \<and> status (processImage_result example_env (lit ''http://x/house.jpg'') [lit ''ND-050'']
      None new_ImageProcessor) = Completed"
  using processImage_failed_only_without_paints
      [of example_env "[lit ''NOPE'']" "lit ''http://x/house.jpg''" None new_ImageProcessor]
    processImage_failed_only_without_paints
      [of example_env "[lit ''ND-050'']" "lit ''http://x/house.jpg''" None new_ImageProcessor]
  by (simp add: example_resolved)

text \<open>
  The claim as first stated gives the error message as \<^verbatim>\<open>no matching paints\<close>; the
  message of the code is another string.
\<close>

theorem processImage_error_message_counterexample:
  "status (processImage_result example_env (lit ''http://x/house.jpg'') [] None
      new_ImageProcessor) = Failed
   \<and> error (processImage_result example_env (lit ''http://x/house.jpg'') [] None
      new_ImageProcessor) \<noteq> Some (lit ''no matching paints'')"
  by (simp add: processImage_result_eq paintsToProcess_eq getPaints_Nil NO_PAINTS_MESSAGE_def
      lit_def)

text \<open>
  C3. A job of a resolved, in-budget paint yields the placeholder
  \<^verbatim>\<open>mock_processed_\<close>, product code, \<^verbatim>\<open>_\<close>, first 20 code units of the source
  image, as the image data of its artifact in each of these cases: no AI
  configuration is set; the configuration has no API key; no provider can be
  created for it; its provider is not ready; the provider's \<^verbatim>\<open>generateImage\<close>
  fails, with whatever error. Whatever its jobs do, a request with paints to
  process ends with status \<^verbatim>\<open>completed\<close> and one artifact for every one of them,
  the i-th being the artifact of the i-th job.
\<close>

theorem generatePaintedImage_placeholder:
  "(aiCfg = None \<longrightarrow>
      imageData (generatePaintedImage aiCfg jenv origImage p) = mockImageProcessing origImage p)
   \<and> (aiCfg = Some cfg \<and> \<not> truthy (apiKey cfg) \<longrightarrow>
      imageData (generatePaintedImage aiCfg jenv origImage p) = mockImageProcessing origImage p)
   \<and> (aiCfg = Some cfg \<and> createAIProvider cfg = Inl e \<longrightarrow>
      imageData (generatePaintedImage aiCfg jenv origImage p) = mockImageProcessing origImage p)
   \<and> (aiCfg = Some cfg \<and> createAIProvider cfg = Inr prov \<and> \<not> isReady prov \<longrightarrow>
      imageData (generatePaintedImage aiCfg jenv origImage p) = mockImageProcessing origImage p)
   \<and> (aiCfg = Some cfg \<and> createAIProvider cfg = Inr prov
        \<and> generateImage prov (job_net jenv) origImage p (job_prompt jenv p) = Inl e \<longrightarrow>
      imageData (generatePaintedImage aiCfg jenv origImage p) = mockImageProcessing origImage p)
   \<and> mockImageProcessing origImage p =
        lit ''mock_processed_'' @ productCode p @ lit ''_'' @ take 20 origImage
   \<and> paint (generatePaintedImage aiCfg jenv origImage p) = p
   \<and> (paintsToProcess (database env)
         \<lparr>req_id = new_requestId env, originalImage = origImage, paintProductCodes = codes,
          options = opts, timestamp = new_timestamp env\<rparr> = Inr ps \<longrightarrow>
       status (processImage_result env origImage codes opts s) = Completed
       \<and> length (generatedImages (processImage_result env origImage codes opts s)) = length ps
       \<and> (\<forall>i<length ps.
             generatedImages (processImage_result env origImage codes opts s) ! i =
               generatePaintedImage (aiConfig s) (jobs env i) origImage (ps ! i)))"
proof -
  have "generateImages (aiConfig s) (jobs env) origImage [] ps ! i =
          generatePaintedImage (aiConfig s) (jobs env i) origImage (ps ! i)"
    if "i < length ps" for i ps
    using generateImages_nth_new [OF that, of "aiConfig s" "jobs env" origImage "[]"] by simp
  then show ?thesis
    by (auto simp: generatePaintedImage_def processWithAI_def Let_def mockImageProcessing_def
        substring0_def processImage_result_eq generateImages_length)
qed

lemma stalled_generateImage:
  "Replicate_generateImage example_config (job_net stalled_job) origImage p prompt
     = Inl (Error (lit ''Image generation timeout''))"
proof -
  have "waitForCompletion example_config (job_net stalled_job) (lit ''p1'')
      = (waited 60, Inl (Error (lit ''Image generation timeout'')))"
    by (rule wait_all_inProgress) (simp add: stalled_job_def answering_inProgress)
  moreover have "fetch_post (job_net stalled_job) req =
      Inr \<lparr>ok = True, statusText = lit ''Created'',
           post_json = Inr \<lparr>created_id = lit ''p1'', created_status = lit ''starting''\<rparr>\<rparr>" for req
    by (simp add: stalled_job_def answering_def)
  moreover have "truthy (apiKey example_config)"
    by (simp add: example_config_def truthy_def lit_def)
  ultimately show ?thesis
    by (simp add: Replicate_generateImage_def)
qed

lemma example_providers:
  "createAIProvider example_config = Inr (ReplicateProvider example_config)"
  "createAIProvider (example_config\<lparr>provider := lit ''local''\<rparr>)
     = Inr (LocalProvider (example_config\<lparr>provider := lit ''local''\<rparr>))"
  by (simp_all add: createAIProvider_def example_config_def lit_def)

lemma example_paintsToProcess:
  "paintsToProcess (database example_env)
     \<lparr>req_id = rid, originalImage = origImage,
      paintProductCodes = [lit ''ND-050'', lit ''KP-200'', lit ''NOPE'', lit ''ND-050''],
      options = Some (example_options 2), timestamp = ts\<rparr>
   = Inr [paint_ND_050, paint_KP_200]"
  by (simp add: paintsToProcess_eq example_resolved example_options_def num_or_def slice0_def
      trunc_numerals)

lemma example_placeholders:
  "mockImageProcessing (lit ''http://x/house.jpg'') paint_ND_050
     = lit ''mock_processed_ND-050_http://x/house.jpg''"
  "mockImageProcessing (lit ''http://x/house.jpg'') paint_KP_200
     = lit ''mock_processed_KP-200_http://x/house.jpg''"
  "mockImageProcessing (lit ''data:image/jpeg;base64,/9j/4AAQSk'') paint_ND_050
     = lit ''mock_processed_ND-050_data:image/jpeg;base''"
  by (simp_all add: mockImageProcessing_def substring0_def paint_ND_050_def paint_KP_200_def
      lit_def)

theorem generatePaintedImage_placeholder_witness:
  "imageData (generatePaintedImage None example_job (lit ''http://x/house.jpg'') paint_ND_050)
     = lit ''mock_processed_ND-050_http://x/house.jpg''
   \<and> imageData (generatePaintedImage (Some (example_config\<lparr>apiKey := None\<rparr>)) example_job
        (lit ''http://x/house.jpg'') paint_ND_050)
     = lit ''mock_processed_ND-050_http://x/house.jpg''
   \<and> imageData (generatePaintedImage (Some (example_config\<lparr>provider := lit ''local''\<rparr>))
        example_job (lit ''data:image/jpeg;base64,/9j/4AAQSk'') paint_ND_050)
     = lit ''mock_processed_ND-050_data:image/jpeg;base''
   \<and> imageData (generatePaintedImage (Some example_config) stalled_job
        (lit ''http://x/house.jpg'') paint_KP_200)
     = lit ''mock_processed_KP-200_http://x/house.jpg''
   \<and> status (processImage_result (example_env\<lparr>jobs := (\<lambda>i. stalled_job)\<rparr>)
        (lit ''http://x/house.jpg'')
        [lit ''ND-050'', lit ''KP-200'', lit ''NOPE'', lit ''ND-050'']
        (Some (example_options 2)) (setAIConfig example_config new_ImageProcessor)) = Completed
   \<and> length (generatedImages (processImage_result (example_env\<lparr>jobs := (\<lambda>i. stalled_job)\<rparr>)
        (lit ''http://x/house.jpg'')
        [lit ''ND-050'', lit ''KP-200'', lit ''NOPE'', lit ''ND-050'']
        (Some (example_options 2)) (setAIConfig example_config new_ImageProcessor))) = 2"
proof -
  note T = generatePaintedImage_placeholder
  have a: "imageData (generatePaintedImage None example_job (lit ''http://x/house.jpg'')
      paint_ND_050) = mockImageProcessing (lit ''http://x/house.jpg'') paint_ND_050"
    using T [of None example_job "lit ''http://x/house.jpg''" paint_ND_050, THEN conjunct1]
    by simp
  have b: "imageData (generatePaintedImage (Some (example_config\<lparr>apiKey := None\<rparr>)) example_job
        (lit ''http://x/house.jpg'') paint_ND_050)
      = mockImageProcessing (lit ''http://x/house.jpg'') paint_ND_050"
    using T [of "Some (example_config\<lparr>apiKey := None\<rparr>)" example_job
        "lit ''http://x/house.jpg''" paint_ND_050 "example_config\<lparr>apiKey := None\<rparr>",
        THEN conjunct2, THEN conjunct1]
    by (simp add: truthy_def)
  have c: "imageData (generatePaintedImage (Some (example_config\<lparr>provider := lit ''local''\<rparr>))
        example_job (lit ''data:image/jpeg;base64,/9j/4AAQSk'') paint_ND_050)
      = mockImageProcessing (lit ''data:image/jpeg;base64,/9j/4AAQSk'') paint_ND_050"
    using T [of "Some (example_config\<lparr>provider := lit ''local''\<rparr>)" example_job
        "lit ''data:image/jpeg;base64,/9j/4AAQSk''" paint_ND_050
        "example_config\<lparr>provider := lit ''local''\<rparr>" _
        "LocalProvider (example_config\<lparr>provider := lit ''local''\<rparr>)",
        THEN conjunct2, THEN conjunct2, THEN conjunct2, THEN conjunct1]
    by (simp add: example_providers)
  have d: "imageData (generatePaintedImage (Some example_config) stalled_job
        (lit ''http://x/house.jpg'') paint_KP_200)
      = mockImageProcessing (lit ''http://x/house.jpg'') paint_KP_200"
    using T [of "Some example_config" stalled_job "lit ''http://x/house.jpg''" paint_KP_200
        example_config "Error (lit ''Image generation timeout'')"
        "ReplicateProvider example_config",
        THEN conjunct2, THEN conjunct2, THEN conjunct2, THEN conjunct2, THEN conjunct1]
    by (simp add: example_providers stalled_generateImage)
  have e: "status (processImage_result (example_env\<lparr>jobs := (\<lambda>i. stalled_job)\<rparr>)
        (lit ''http://x/house.jpg'')
        [lit ''ND-050'', lit ''KP-200'', lit ''NOPE'', lit ''ND-050'']
        (Some (example_options 2)) (setAIConfig example_config new_ImageProcessor)) = Completed
     \<and> length (generatedImages (processImage_result (example_env\<lparr>jobs := (\<lambda>i. stalled_job)\<rparr>)
        (lit ''http://x/house.jpg'')
        [lit ''ND-050'', lit ''KP-200'', lit ''NOPE'', lit ''ND-050'']
        (Some (example_options 2)) (setAIConfig example_config new_ImageProcessor))) = 2"
    using T [of _ _ "lit ''http://x/house.jpg''" _ _ _ _ "example_env\<lparr>jobs := (\<lambda>i. stalled_job)\<rparr>"
        "[lit ''ND-050'', lit ''KP-200'', lit ''NOPE'', lit ''ND-050'']"
        "Some (example_options 2)" "[paint_ND_050, paint_KP_200]"
        "setAIConfig example_config new_ImageProcessor",
        THEN conjunct2, THEN conjunct2, THEN conjunct2, THEN conjunct2, THEN conjunct2,
        THEN conjunct2, THEN conjunct2]
      example_paintsToProcess [of "lit ''req_1''" "lit ''http://x/house.jpg''" 1700000000000]
    by (simp add: example_env_def)
  show ?thesis
    using a b c d e by (simp only: example_placeholders)
qed

subsection \<open>The processor and its calls in flight\<close>

lemma set_AList_update: "set (AList.update k v al) \<subseteq> insert (k, v) (set al)"
  by (induction al) auto

lemma keys_AList_update: "fst ` set (AList.update k v al) = insert k (fst ` set al)"
  using AList.dom_update [of k v al] by simp

lemma AList_update_fresh: "k \<notin> fst ` set al \<Longrightarrow> AList.update k v al = al @ [(k, v)]"
  by (induction al) auto

lemma length_AList_update:
  "length (AList.update k v al) = (if k \<in> fst ` set al then length al else Suc (length al))"
  by (induction al) auto

lemma register_request_fields:
  "register_request env origImage codes opts s = (request, r, s1) \<Longrightarrow>
     r = next_ref s \<and> next_ref s1 = Suc (next_ref s)
     \<and> req_id request = new_requestId env
     \<and> originalImage request = origImage
     \<and> results s1 = AList.update (new_requestId env) (next_ref s) (results s)
     \<and> aiConfig s1 = aiConfig s
     \<and> status (heap s1 (next_ref s)) = Processing
     \<and> (\<forall>r'. r' \<noteq> next_ref s \<longrightarrow> heap s1 r' = heap s r')"
  by (auto simp: register_request_def Let_def)

lemma wf_initial: "wf_system initial_system"
  by (simp add: wf_system_def initial_system_def new_ImageProcessor_def)

lemma wf_call:
  assumes "wf_system sys"
  shows "wf_system (call_processImage env origImage codes opts sys)"
proof -
  obtain request r s1 where reg:
    "register_request env origImage codes opts (proc sys) = (request, r, s1)"
    by (cases "register_request env origImage codes opts (proc sys)") auto
  note f = register_request_fields [OF reg]
  let ?n = "next_ref (proc sys)"
  have res: "\<forall>(rid, r') \<in> set (results s1). r' < Suc ?n"
    using assms f set_AList_update [of "new_requestId env" ?n "results (proc sys)"]
    by (fastforce simp: wf_system_def)
  have hp: "\<forall>r' < Suc ?n. status (heap s1 r') \<noteq> Pending"
  proof (intro allI impI)
    fix r' assume "r' < Suc ?n"
    then show "status (heap s1 r') \<noteq> Pending"
      using assms f by (cases "r' = ?n") (auto simp: wf_system_def)
  qed
  have old: "\<forall>t \<in> set (tasks sys). task_result t < ?n
      \<and> (task_phase t \<noteq> Settled \<longrightarrow> status (heap s1 (task_result t)) = Processing)"
    using assms f by (auto simp: wf_system_def)
  then have fresh: "?n \<notin> task_result ` set (tasks sys)" by auto
  have dist: "distinct (map task_result (tasks sys))"
    using assms by (simp add: wf_system_def)
  show ?thesis
    using res hp old fresh dist f
    by (auto simp: call_processImage_def reg wf_system_def less_Suc_eq)
qed

lemma resume_task_fields:
  assumes "resume_task t s = (t', s')"
  shows "task_result t' = task_result t"
    and "next_ref s' = next_ref s"
    and "results s' = results s"
    and "aiConfig s' = aiConfig s"
    and "r \<noteq> task_result t \<Longrightarrow> heap s' r = heap s r"
    and "task_phase t = Settled \<Longrightarrow> heap s' r = heap s r"
    and "task_phase t' \<noteq> Settled \<Longrightarrow> status (heap s' r) = status (heap s r)"
    and "status (heap s (task_result t)) = Processing \<Longrightarrow>
         status (heap s' (task_result t)) \<noteq> Pending"
  using assms
  by (auto simp: resume_task_def store_images_def set_completed_def set_failed_def
      split: phase.splits list.splits)

lemma resume_task_settled:
  "resume_task t s = (t', s') \<Longrightarrow> task_phase t = Settled \<Longrightarrow> task_phase t' = Settled"
  by (auto simp: resume_task_def)

lemma wf_resume:
  assumes wf: "wf_system sys" and i: "i < length (tasks sys)"
    and res: "resume_task (tasks sys ! i) (proc sys) = (t', s')"
  shows "wf_system \<lparr>proc = s', tasks = (tasks sys)[i := t']\<rparr>"
proof -
  let ?t = "tasks sys ! i"
  let ?s = "proc sys"
  note f = resume_task_fields [OF res]
  have tin: "?t \<in> set (tasks sys)" using i by simp
  have dist: "distinct (map task_result (tasks sys))" using wf by (simp add: wf_system_def)
  have same: "map task_result ((tasks sys)[i := t']) = map task_result (tasks sys)"
    using f(1) i by (simp add: map_update list_update_same_conv)
  have other: "task_result (tasks sys ! j) \<noteq> task_result ?t"
    if "j < length (tasks sys)" "j \<noteq> i" for j
    using dist that i by (auto simp: distinct_conv_nth)
  have st: "status (heap s' r) \<noteq> Pending" if "r < next_ref ?s" for r
  proof (cases "r = task_result ?t")
    case False
    then show ?thesis using f(5) [of r] wf that by (simp add: wf_system_def)
  next
    case True
    show ?thesis
    proof (cases "task_phase ?t = Settled")
      case True
      then show ?thesis using f(6) [of r] wf that by (simp add: wf_system_def)
    next
      case False
      then have "status (heap ?s (task_result ?t)) = Processing"
        using wf tin by (auto simp: wf_system_def)
      then show ?thesis using f(8) \<open>r = task_result ?t\<close> by simp
    qed
  qed
  have tk: "task_result u < next_ref s'
      \<and> (task_phase u \<noteq> Settled \<longrightarrow> status (heap s' (task_result u)) = Processing)"
    if u: "u \<in> set ((tasks sys)[i := t'])" for u
  proof -
    from u obtain j where j: "j < length (tasks sys)" "u = (tasks sys)[i := t'] ! j"
      by (auto simp: in_set_conv_nth)
    show ?thesis
    proof (cases "j = i")
      case True
      then have "u = t'" using j i by simp
      moreover have "task_result ?t < next_ref ?s" using wf tin by (auto simp: wf_system_def)
      moreover have "task_phase t' \<noteq> Settled \<Longrightarrow>
          status (heap s' (task_result ?t)) = Processing"
      proof -
        assume ns: "task_phase t' \<noteq> Settled"
        then have "task_phase ?t \<noteq> Settled" using resume_task_settled [OF res] by auto
        then have "status (heap ?s (task_result ?t)) = Processing"
          using wf tin by (auto simp: wf_system_def)
        then show ?thesis using f(7) [OF ns] by simp
      qed
      ultimately show ?thesis using f(1,2) by simp
    next
      case False
      then have u': "u = tasks sys ! j" using j by simp
      then have "u \<in> set (tasks sys)" using j by simp
      then have "task_result u < next_ref ?s
          \<and> (task_phase u \<noteq> Settled \<longrightarrow> status (heap ?s (task_result u)) = Processing)"
        using wf by (auto simp: wf_system_def)
      moreover have "heap s' (task_result u) = heap ?s (task_result u)"
        using other [OF j(1) False] u' f(5) by simp
      ultimately show ?thesis using f(2) by simp
    qed
  qed
  have rs: "\<forall>(rid, r) \<in> set (results s'). r < next_ref s'"
    using wf f(2,3) by (simp add: wf_system_def)
  show ?thesis
    unfolding wf_system_def
    using rs st tk same dist f(2) by auto
qed

lemma wf_step: "wf_system sys \<Longrightarrow> wf_system (step a sys)"
proof (cases a)
  case (ProcessImage env origImage codes opts)
  assume "wf_system sys"
  then show ?thesis using ProcessImage by (simp add: wf_call)
next
  case (Resume i)
  assume wf: "wf_system sys"
  show ?thesis
  proof (cases "i < length (tasks sys)")
    case True
    obtain t' s' where "resume_task (tasks sys ! i) (proc sys) = (t', s')"
      by (cases "resume_task (tasks sys ! i) (proc sys)") auto
    then show ?thesis using wf_resume [OF wf True] Resume True by simp
  next
    case False
    then show ?thesis using wf Resume by simp
  qed
next
  case (SetAIConfig config)
  assume "wf_system sys"
  then show ?thesis using SetAIConfig by (simp add: wf_system_def setAIConfig_def)
next
  case ClearCache
  assume "wf_system sys"
  then show ?thesis using ClearCache by (simp add: wf_system_def clearCache_def)
qed simp_all

lemma run_Nil: "run [] sys = sys"
  by (simp add: run_def)

lemma run_Cons: "run (a # as) sys = run as (step a sys)"
  by (simp add: run_def)

lemma run_snoc: "run (as @ [a]) sys = step a (run as sys)"
  by (simp add: run_def)

lemma run_append: "run (as @ bs) sys = run bs (run as sys)"
  by (simp add: run_def)

lemma wf_run: "wf_system sys \<Longrightarrow> wf_system (run as sys)"
  by (induction as arbitrary: sys) (simp_all add: run_Nil run_Cons wf_step)

lemma wf_reachable: "wf_system (run as initial_system)"
  by (simp add: wf_run wf_initial)

text \<open>
  A call of \<^verbatim>\<open>processImage\<close> that nothing interrupts is the call followed by the
  resumptions of its task: the processor it leaves is the one of \<open>processImage\<close>.
\<close>

lemma step_Resume_last:
  "step (Resume (length ts)) \<lparr>proc = s, tasks = ts @ [t]\<rparr> =
     \<lparr>proc = snd (resume_task t s), tasks = ts @ [fst (resume_task t s)]\<rparr>"
  by (simp add: split_beta)

lemma run_replicate_Suc: "run (replicate (Suc m) a) sys = run (replicate m a) (step a sys)"
  by (simp add: run_Cons)

lemma run_jobs:
  "run (replicate (length ps) (Resume (length ts)))
     \<lparr>proc = s, tasks = ts @ [\<lparr>task_env = env, task_request = request, task_result = r,
                               task_phase = Running ps acc\<rparr>]\<rparr>
   = \<lparr>proc = s, tasks = ts @ [\<lparr>task_env = env, task_request = request, task_result = r,
        task_phase = Running []
          (generateImages (aiConfig s) (jobs env) (originalImage request) acc ps)\<rparr>]\<rparr>"
proof (induction ps arbitrary: acc)
  case Nil
  show ?case by (simp add: run_Nil)
next
  case (Cons p ps)
  show ?case
    using Cons.IH
    by (simp only: length_Cons run_replicate_Suc step_Resume_last)
       (simp add: resume_task_def)
qed

lemma run_settled:
  "run (replicate m (Resume (length ts)))
     \<lparr>proc = s, tasks = ts @ [\<lparr>task_env = env, task_request = request, task_result = r,
                               task_phase = Settled\<rparr>]\<rparr>
   = \<lparr>proc = s, tasks = ts @ [\<lparr>task_env = env, task_request = request, task_result = r,
                               task_phase = Settled\<rparr>]\<rparr>"
proof (induction m)
  case 0
  show ?case by (simp add: run_Nil)
next
  case (Suc m)
  then show ?case
    by (simp only: run_replicate_Suc step_Resume_last) (simp add: resume_task_def)
qed

lemma replicate_add_run:
  "run (replicate (m + n) a) sys = run (replicate n a) (run (replicate m a) sys)"
  by (simp add: replicate_add run_append)

lemma processImage_uninterrupted:
  assumes "length ps + 2 \<le> m"
    and "paintsToProcess (database env)
          \<lparr>req_id = new_requestId env, originalImage = origImage, paintProductCodes = codes,
           options = opts, timestamp = new_timestamp env\<rparr> = Inr ps
         \<or> (ps = [] \<and> (\<exists>e. paintsToProcess (database env)
          \<lparr>req_id = new_requestId env, originalImage = origImage, paintProductCodes = codes,
           options = opts, timestamp = new_timestamp env\<rparr> = Inl e))"
  shows "proc (run (ProcessImage env origImage codes opts
                     # replicate m (Resume (length (tasks sys)))) sys)
         = snd (processImage env origImage codes opts (proc sys))"
proof -
  let ?request = "\<lparr>req_id = new_requestId env, originalImage = origImage,
      paintProductCodes = codes, options = opts, timestamp = new_timestamp env\<rparr>"
  let ?r = "next_ref (proc sys)"
  obtain s1 where reg: "register_request env origImage codes opts (proc sys) = (?request, ?r, s1)"
    by (simp add: register_request_def Let_def)
  let ?k = "length (tasks sys)"
  obtain m' where m: "m = length ps + (2 + m')"
    using assms(1) by (metis add.assoc le_Suc_ex)
  from assms(2) show ?thesis
  proof
    assume ok: "paintsToProcess (database env) ?request = Inr ps"
    have "run (ProcessImage env origImage codes opts # replicate m (Resume ?k)) sys
        = run (replicate (2 + m') (Resume ?k)) (run (replicate (length ps) (Resume ?k))
            \<lparr>proc = s1, tasks = tasks sys @ [\<lparr>task_env = env, task_request = ?request,
               task_result = ?r, task_phase = Running ps []\<rparr>]\<rparr>)"
      by (simp only: run_Cons m replicate_add_run) (simp add: call_processImage_def reg ok)
    also have "\<dots> = run (replicate (2 + m') (Resume ?k))
            \<lparr>proc = s1, tasks = tasks sys @ [\<lparr>task_env = env, task_request = ?request,
               task_result = ?r, task_phase = Running []
                 (generateImages (aiConfig s1) (jobs env) origImage [] ps)\<rparr>]\<rparr>"
      by (simp only: run_jobs) simp
    also have "\<dots> = run (replicate m' (Resume ?k))
            \<lparr>proc = set_completed ?r (store_images ?r
                 (generateImages (aiConfig s1) (jobs env) origImage [] ps)
                 (endTime env - startTime env) s1),
             tasks = tasks sys @ [\<lparr>task_env = env, task_request = ?request,
               task_result = ?r, task_phase = Settled\<rparr>]\<rparr>"
      by (simp only: add_2_eq_Suc run_replicate_Suc step_Resume_last)
         (simp add: resume_task_def)
    finally show ?thesis
      by (simp only: run_settled)
         (simp add: processImage_def reg executeImageProcessing_def ok)
  next
    assume "ps = [] \<and> (\<exists>e. paintsToProcess (database env) ?request = Inl e)"
    then obtain e where ps: "ps = []" and bad: "paintsToProcess (database env) ?request = Inl e"
      by auto
    have "run (ProcessImage env origImage codes opts # replicate m (Resume ?k)) sys
        = run (replicate (Suc (Suc m')) (Resume ?k))
            \<lparr>proc = s1, tasks = tasks sys @ [\<lparr>task_env = env, task_request = ?request,
               task_result = ?r, task_phase = Threw e\<rparr>]\<rparr>"
      using m ps by (simp add: run_Cons call_processImage_def reg bad)
    also have "\<dots> = run (replicate (Suc m') (Resume ?k))
            \<lparr>proc = set_failed ?r e s1,
             tasks = tasks sys @ [\<lparr>task_env = env, task_request = ?request,
               task_result = ?r, task_phase = Settled\<rparr>]\<rparr>"
      by (simp only: run_replicate_Suc step_Resume_last) (simp add: resume_task_def)
    finally show ?thesis
      by (simp only: run_settled)
         (simp add: processImage_def reg executeImageProcessing_def bad)
  qed
qed

lemma processImage_as_run:
  "proc (run (ProcessImage env origImage codes opts
               # replicate (length (getPaintsByProductCodes (database env) codes) + 2)
                   (Resume (length (tasks sys)))) sys)
   = snd (processImage env origImage codes opts (proc sys))"
proof (cases "getPaintsByProductCodes (database env) codes = []")
  case True
  show ?thesis
  proof (rule processImage_uninterrupted [where ps = "[]"])
    show "length ([] :: Paint list) + 2
        \<le> length (getPaintsByProductCodes (database env) codes) + 2"
      by simp
    show "paintsToProcess (database env)
          \<lparr>req_id = new_requestId env, originalImage = origImage, paintProductCodes = codes,
           options = opts, timestamp = new_timestamp env\<rparr> = Inr []
        \<or> ([] = ([] :: Paint list) \<and> (\<exists>e. paintsToProcess (database env)
          \<lparr>req_id = new_requestId env, originalImage = origImage, paintProductCodes = codes,
           options = opts, timestamp = new_timestamp env\<rparr> = Inl e))"
      using True by (simp add: paintsToProcess_eq)
  qed
next
  case False
  let ?ps = "slice0 (getPaintsByProductCodes (database env) codes)
     (num_or (Option.bind opts maxPatterns)
        (Num (of_nat (length (getPaintsByProductCodes (database env) codes)))))"
  show ?thesis
  proof (rule processImage_uninterrupted [where ps = ?ps])
    show "length ?ps + 2 \<le> length (getPaintsByProductCodes (database env) codes) + 2"
      by (simp add: slice0_length_le)
    show "paintsToProcess (database env)
          \<lparr>req_id = new_requestId env, originalImage = origImage, paintProductCodes = codes,
           options = opts, timestamp = new_timestamp env\<rparr> = Inr ?ps
        \<or> (?ps = [] \<and> (\<exists>e. paintsToProcess (database env)
          \<lparr>req_id = new_requestId env, originalImage = origImage, paintProductCodes = codes,
           options = opts, timestamp = new_timestamp env\<rparr> = Inl e))"
      using False by (simp add: paintsToProcess_eq)
  qed
qed

lemmas exec_defs =
  run_def call_processImage_def register_request_def resume_task_def store_images_def
  set_completed_def set_failed_def initial_system_def new_ImageProcessor_def
  paintsToProcess_no_options example_resolved Let_def

lemma example_ids: "lit ''req_2'' \<noteq> lit ''req_1''" "lit ''req_3'' \<noteq> lit ''req_1''"
  "lit ''req_3'' \<noteq> lit ''req_2''"
  by (simp_all add: lit_def)

lemma example_resolved2:
  "getPaintsByProductCodes initializeSampleData [lit ''ND-050'', lit ''KP-200'']
     = [paint_ND_050, paint_KP_200]"
  "getPaintsByProductCodes initializeSampleData [lit ''ND-050''] = [paint_ND_050]"
  "getPaintsByProductCodes initializeSampleData [lit ''NOPE''] = []"
  by (simp_all add: getPaints_Cons getPaints_Nil sample_ND_050 sample_KP_200 sample_NOPE)

lemma example_run_results:
  "results (proc (run example_actions initial_system))
     = [(lit ''req_1'', 0), (lit ''req_2'', 1), (lit ''req_3'', 2)]"
  "map (\<lambda>r. status (heap (proc (run example_actions initial_system)) r)) [0, 1, 2]
     = [Completed, Failed, Processing]"
  using example_ids
  by (simp_all add: example_actions_def exec_defs example_env_def example_resolved2)

subsection \<open>Terminal results\<close>

lemma heap_step_terminal:
  assumes wf: "wf_system sys" and r: "r < next_ref (proc sys)"
    and st: "status (heap (proc sys) r) = Completed \<or> status (heap (proc sys) r) = Failed"
  shows "heap (proc (step a sys)) r = heap (proc sys) r"
proof (cases a)
  case (ProcessImage env origImage codes opts)
  obtain request r0 s1 where reg:
    "register_request env origImage codes opts (proc sys) = (request, r0, s1)"
    by (cases "register_request env origImage codes opts (proc sys)") auto
  from register_request_fields [OF reg] r
  have "heap s1 r = heap (proc sys) r" by simp
  then show ?thesis using ProcessImage by (simp add: call_processImage_def reg)
next
  case (Resume i)
  show ?thesis
  proof (cases "i < length (tasks sys)")
    case False
    then show ?thesis using Resume by simp
  next
    case True
    let ?t = "tasks sys ! i"
    obtain t' s' where res: "resume_task ?t (proc sys) = (t', s')"
      by (cases "resume_task ?t (proc sys)") auto
    have "heap s' r = heap (proc sys) r"
    proof (cases "r = task_result ?t")
      case False
      then show ?thesis using resume_task_fields(5) [OF res] by simp
    next
      case eq: True
      have "?t \<in> set (tasks sys)" using True by simp
      then have "task_phase ?t \<noteq> Settled \<longrightarrow> status (heap (proc sys) r) = Processing"
        using wf eq by (auto simp: wf_system_def)
      then have "task_phase ?t = Settled" using st by auto
      then show ?thesis using resume_task_fields(6) [OF res] by simp
    qed
    then show ?thesis using Resume True res by simp
  qed
next
  case (SetAIConfig config)
  then show ?thesis by (simp add: setAIConfig_def)
next
  case ClearCache
  then show ?thesis by (simp add: clearCache_def)
qed simp_all

lemma next_ref_step: "next_ref (proc sys) \<le> next_ref (proc (step a sys))"
proof (cases a)
  case (ProcessImage env origImage codes opts)
  then show ?thesis
    by (simp add: call_processImage_def register_request_def Let_def)
next
  case (Resume i)
  show ?thesis
  proof (cases "i < length (tasks sys)")
    case True
    obtain t' s' where res: "resume_task (tasks sys ! i) (proc sys) = (t', s')"
      by (cases "resume_task (tasks sys ! i) (proc sys)") auto
    then show ?thesis using Resume True resume_task_fields(2) [OF res] by simp
  next
    case False
    then show ?thesis using Resume by simp
  qed
qed (simp_all add: setAIConfig_def clearCache_def)

lemma heap_run_terminal:
  "wf_system sys \<Longrightarrow> r < next_ref (proc sys) \<Longrightarrow>
   status (heap (proc sys) r) = Completed \<or> status (heap (proc sys) r) = Failed \<Longrightarrow>
   heap (proc (run bs sys)) r = heap (proc sys) r"
proof (induction bs arbitrary: sys)
  case Nil
  then show ?case by (simp add: run_Nil)
next
  case (Cons b bs)
  have h: "heap (proc (step b sys)) r = heap (proc sys) r"
    using heap_step_terminal [OF Cons.prems] .
  have "r < next_ref (proc (step b sys))"
    using Cons.prems(2) next_ref_step [of sys b] by simp
  from Cons.IH [OF wf_step [OF Cons.prems(1)] this] h Cons.prems(3)
  show ?case by (simp add: run_Cons)
qed

lemma getResult_step:
  "\<not> displaces rid a \<Longrightarrow> getResult (proc (step a sys)) rid = getResult (proc sys) rid"
proof (cases a)
  case (ProcessImage env origImage codes opts)
  assume "\<not> displaces rid a"
  then show ?thesis using ProcessImage
    by (simp add: call_processImage_def register_request_def Let_def getResult_def
        AList.update_conv')
next
  case (Resume i)
  show ?thesis
  proof (cases "i < length (tasks sys)")
    case True
    obtain t' s' where res: "resume_task (tasks sys ! i) (proc sys) = (t', s')"
      by (cases "resume_task (tasks sys ! i) (proc sys)") auto
    then show ?thesis using Resume True resume_task_fields(3) [OF res]
      by (simp add: getResult_def)
  next
    case False
    then show ?thesis using Resume by simp
  qed
qed (simp_all add: setAIConfig_def getResult_def)

lemma getResult_run:
  "\<forall>b \<in> set bs. \<not> displaces rid b \<Longrightarrow>
   getResult (proc (run bs sys)) rid = getResult (proc sys) rid"
  by (induction bs arbitrary: sys) (simp_all add: run_Nil run_Cons getResult_step)

text \<open>
  C9. Let a history of the processor lead to a state where \<^verbatim>\<open>getResult\<close> returns,
  for a request id, a result with status \<^verbatim>\<open>completed\<close> (or \<^verbatim>\<open>failed\<close>). Then
  \<^verbatim>\<open>getResult\<close> is a read that leaves the state as it is; whatever happens
  afterwards, no field of that result changes; and as long as the store is not
  cleared and no later call draws the same request id, every later \<^verbatim>\<open>getResult\<close>
  with that id returns that same result.
\<close>

theorem terminal_result_immutable:
  "getResult (proc (run as initial_system)) rid = Some r
   \<and> (status (heap (proc (run as initial_system)) r) = Completed
       \<or> status (heap (proc (run as initial_system)) r) = Failed) \<longrightarrow>
     step (GetResult rid) (run as initial_system) = run as initial_system
     \<and> heap (proc (run bs (run as initial_system))) r = heap (proc (run as initial_system)) r
     \<and> ((\<forall>b \<in> set bs. \<not> displaces rid b) \<longrightarrow>
          getResult (proc (run bs (run as initial_system))) rid = Some r)"
proof (intro impI conjI)
  assume a: "getResult (proc (run as initial_system)) rid = Some r
   \<and> (status (heap (proc (run as initial_system)) r) = Completed
       \<or> status (heap (proc (run as initial_system)) r) = Failed)"
  let ?sys = "run as initial_system"
  have wf: "wf_system ?sys" by (rule wf_reachable)
  have "(rid, r) \<in> set (results (proc ?sys))"
    using a by (auto simp: getResult_def dest: map_of_SomeD)
  then have r: "r < next_ref (proc ?sys)" using wf by (auto simp: wf_system_def)
  show "heap (proc (run bs ?sys)) r = heap (proc ?sys) r"
    using heap_run_terminal [OF wf r] a by blast
  show "step (GetResult rid) ?sys = ?sys" by simp
  assume "\<forall>b \<in> set bs. \<not> displaces rid b"
  then show "getResult (proc (run bs ?sys)) rid = Some r"
    using getResult_run [of bs rid ?sys] a by simp
qed

lemma example_completed:
  "getResult (proc (run (take 7 example_actions) initial_system)) (lit ''req_1'') = Some 0"
  "status (heap (proc (run (take 7 example_actions) initial_system)) 0) = Completed"
  using example_ids
  by (simp_all add: example_actions_def exec_defs example_env_def example_resolved2
      getResult_def)

theorem terminal_result_immutable_witness:
  "getResult (proc (run (take 7 example_actions) initial_system)) (lit ''req_1'') = Some 0
   \<and> status (heap (proc (run (take 7 example_actions) initial_system)) 0) = Completed
   \<and> heap (proc (run (drop 7 example_actions @ [SetAIConfig example_config, Resume 2, Resume 0])
                   (run (take 7 example_actions) initial_system))) 0
     = heap (proc (run (take 7 example_actions) initial_system)) 0
   \<and> getResult
       (proc (run (drop 7 example_actions @ [SetAIConfig example_config, Resume 2, Resume 0])
                (run (take 7 example_actions) initial_system))) (lit ''req_1'') = Some 0
   \<and> heap (proc (run [ClearCache] (run (take 7 example_actions) initial_system))) 0
     = heap (proc (run (take 7 example_actions) initial_system)) 0"
proof -
  have nd: "\<forall>b \<in> set (drop 7 example_actions @ [SetAIConfig example_config, Resume 2, Resume 0]).
      \<not> displaces (lit ''req_1'') b"
    using example_ids by (simp add: example_actions_def example_env_def)
  show ?thesis
    using terminal_result_immutable [of "take 7 example_actions" "lit ''req_1''" 0
        "drop 7 example_actions @ [SetAIConfig example_config, Resume 2, Resume 0]"]
      terminal_result_immutable [of "take 7 example_actions" "lit ''req_1''" 0 "[ClearCache]"]
      example_completed nd
    by blast
qed

subsection \<open>The result store\<close>

text \<open>
  C8 (as amended). A call of \<^verbatim>\<open>processImage\<close> whose generated request id is not
  yet in the result store adds exactly one entry to the store (it has done so
  when its first \<^verbatim>\<open>await\<close> suspends it) and leaves every stored entry as it
  is. A call whose generated id is already stored adds no entry: it puts its
  new result in the place of the result stored under that id, and leaves the
  entries of all other ids as they are. \<^verbatim>\<open>setAIConfig\<close>, the reading methods
  and the resumption of a call in flight leave all entries as they are. The
  store shrinks by \<^verbatim>\<open>clearCache\<close> only, which empties it.
\<close>

theorem result_store_growth:
  "(new_requestId env \<notin> fst ` set (results s) \<longrightarrow>
      results (snd (processImage env origImage codes opts s)) =
        results s @ [(new_requestId env, fst (processImage env origImage codes opts s))]
      \<and> length (results (snd (processImage env origImage codes opts s))) =
          length (results s) + 1)
   \<and> (new_requestId env \<in> fst ` set (results s) \<longrightarrow>
      length (results (snd (processImage env origImage codes opts s))) = length (results s))
   \<and> getResult (snd (processImage env origImage codes opts s)) (new_requestId env)
        = Some (fst (processImage env origImage codes opts s))
   \<and> fst (processImage env origImage codes opts s) = next_ref s
   \<and> (rid \<noteq> new_requestId env \<longrightarrow>
        getResult (snd (processImage env origImage codes opts s)) rid = getResult s rid)
   \<and> (new_requestId env \<notin> fst ` set (results (proc sys)) \<longrightarrow>
      results (proc (step (ProcessImage env origImage codes opts) sys)) =
        results (proc sys) @ [(new_requestId env, next_ref (proc sys))])
   \<and> (getResult (proc (run as initial_system)) (new_requestId env) = Some r \<longrightarrow>
        getResult (proc (step (ProcessImage env origImage codes opts) (run as initial_system)))
            (new_requestId env)
          = Some (next_ref (proc (run as initial_system)))
        \<and> r \<noteq> next_ref (proc (run as initial_system))
        \<and> length (results (proc (step (ProcessImage env origImage codes opts)
                                    (run as initial_system))))
          = length (results (proc (run as initial_system))))
   \<and> (\<not> displaces rid a \<longrightarrow> getResult (proc (step a sys)) rid = getResult (proc sys) rid)
   \<and> ((\<forall>env' origImage' codes' opts'. a \<noteq> ProcessImage env' origImage' codes' opts')
        \<and> a \<noteq> ClearCache \<longrightarrow>
        results (proc (step a sys)) = results (proc sys))
   \<and> (a \<noteq> ClearCache \<longrightarrow>
        length (results (proc sys)) \<le> length (results (proc (step a sys))))
   \<and> results (proc (step ClearCache sys)) = []"
proof -
  have p: "results (snd (processImage env origImage codes opts s)) =
      AList.update (new_requestId env) (next_ref s) (results s)"
    and f: "fst (processImage env origImage codes opts s) = next_ref s"
    by (simp_all add: processImage_def register_request_def executeImageProcessing_def
        store_images_def set_completed_def set_failed_def Let_def split: sum.split)
  have c: "results (proc (call_processImage env origImage codes opts sys)) =
      AList.update (new_requestId env) (next_ref (proc sys)) (results (proc sys))"
    for env origImage codes opts sys
    by (simp add: call_processImage_def register_request_def Let_def)
  have same: "results (proc (step a sys)) = results (proc sys)"
    if "\<forall>env' origImage' codes' opts'. a \<noteq> ProcessImage env' origImage' codes' opts'"
      "a \<noteq> ClearCache"
  proof (cases a)
    case (Resume i)
    show ?thesis
    proof (cases "i < length (tasks sys)")
      case True
      obtain t' s' where res: "resume_task (tasks sys ! i) (proc sys) = (t', s')"
        by (cases "resume_task (tasks sys ! i) (proc sys)") auto
      then show ?thesis using Resume True resume_task_fields(3) [OF res] by simp
    next
      case False
      then show ?thesis using Resume by simp
    qed
  qed (use that in \<open>simp_all add: setAIConfig_def\<close>)
  have g: "length (results (proc sys)) \<le> length (results (proc (step a sys)))"
    if "a \<noteq> ClearCache"
  proof (cases "\<exists>env' origImage' codes' opts'. a = ProcessImage env' origImage' codes' opts'")
    case True
    then show ?thesis by (auto simp: c length_AList_update)
  next
    case False
    then show ?thesis using same that by simp
  qed
  have coll: "getResult (proc (step (ProcessImage env origImage codes opts) (run as initial_system)))
            (new_requestId env)
          = Some (next_ref (proc (run as initial_system)))
        \<and> r \<noteq> next_ref (proc (run as initial_system))
        \<and> length (results (proc (step (ProcessImage env origImage codes opts)
                                    (run as initial_system))))
          = length (results (proc (run as initial_system)))"
    if "getResult (proc (run as initial_system)) (new_requestId env) = Some r"
  proof -
    have in_store: "(new_requestId env, r) \<in> set (results (proc (run as initial_system)))"
      using that by (auto simp: getResult_def dest: map_of_SomeD)
    then have "r < next_ref (proc (run as initial_system))"
      using wf_reachable [of as] by (auto simp: wf_system_def)
    moreover have "new_requestId env \<in> fst ` set (results (proc (run as initial_system)))"
      using in_store by force
    ultimately show ?thesis
      by (simp add: c getResult_def AList.update_conv' length_AList_update)
  qed
  have other: "getResult (proc (step a sys)) rid = getResult (proc sys) rid"
    if "\<not> displaces rid a"
    using getResult_step [OF that] .
  show ?thesis
    using same g coll other
    by (simp add: p f c AList_update_fresh length_AList_update getResult_def
        AList.update_conv' clearCache_def)
qed

lemma example_processImage:
  "fst (processImage example_env (lit ''http://x/house.jpg'') [lit ''ND-050''] None
          new_ImageProcessor) = 0"
  "new_requestId example_env = lit ''req_1''"
  "results new_ImageProcessor = []"
  "results (proc initial_system) = []" "next_ref (proc initial_system) = 0"
  by (simp_all add: initial_system_def processImage_def register_request_def
      executeImageProcessing_def new_ImageProcessor_def example_env_def Let_def
      split: sum.split)

lemma example_stored:
  "getResult (proc (run (take 7 example_actions) initial_system)) (new_requestId example_env)
     = Some 0"
  "next_ref (proc (run (take 7 example_actions) initial_system)) = 2"
  "length (results (proc (run (take 7 example_actions) initial_system))) = 2"
  using example_ids
  by (simp_all add: example_actions_def exec_defs example_env_def example_resolved2
      getResult_def)

theorem result_store_growth_witness:
  "results (snd (processImage example_env (lit ''http://x/house.jpg'') [lit ''ND-050''] None
                   new_ImageProcessor)) = [(lit ''req_1'', 0)]
   \<and> results (proc (step (ProcessImage example_env (lit ''http://x/house.jpg'')
                              [lit ''ND-050''] None) initial_system)) = [(lit ''req_1'', 0)]
   \<and> getResult (proc (step (ProcessImage example_env (lit ''http://x/house.jpg'')
                              [lit ''NOPE''] None)
                         (run (take 7 example_actions) initial_system))) (lit ''req_1'')
       = Some 2
   \<and> length (results (proc (step (ProcessImage example_env (lit ''http://x/house.jpg'')
                              [lit ''NOPE''] None)
                         (run (take 7 example_actions) initial_system)))) = 2
   \<and> getResult (proc (step (ProcessImage example_env (lit ''http://x/house.jpg'')
                              [lit ''NOPE''] None)
                         (run (take 7 example_actions) initial_system))) (lit ''req_2'')
       = getResult (proc (run (take 7 example_actions) initial_system)) (lit ''req_2'')
   \<and> results (proc (step (Resume 2) (run example_actions initial_system)))
       = results (proc (run example_actions initial_system))
   \<and> results (proc (step ClearCache (run example_actions initial_system))) = []"
proof -
  note T = result_store_growth
  have fresh: "new_requestId example_env \<notin> fst ` set (results new_ImageProcessor)"
    "new_requestId example_env \<notin> fst ` set (results (proc initial_system))"
    by (simp_all add: new_ImageProcessor_def initial_system_def)
  have a: "results (snd (processImage example_env (lit ''http://x/house.jpg'') [lit ''ND-050''] None
                   new_ImageProcessor)) = [(lit ''req_1'', 0)]"
    using T [of example_env new_ImageProcessor "lit ''http://x/house.jpg''" "[lit ''ND-050'']" None,
        THEN conjunct1] fresh(1)
    by (simp add: example_processImage)
  have b: "results (proc (step (ProcessImage example_env (lit ''http://x/house.jpg'')
                              [lit ''ND-050''] None) initial_system)) = [(lit ''req_1'', 0)]"
    using T [of example_env _ "lit ''http://x/house.jpg''" "[lit ''ND-050'']" None _ initial_system,
        THEN conjunct2, THEN conjunct2, THEN conjunct2, THEN conjunct2, THEN conjunct2,
        THEN conjunct1] fresh(2)
    by (simp add: example_processImage)
  have c: "getResult (proc (step (ProcessImage example_env (lit ''http://x/house.jpg'')
                              [lit ''NOPE''] None)
                         (run (take 7 example_actions) initial_system))) (lit ''req_1'')
       = Some 2
     \<and> length (results (proc (step (ProcessImage example_env (lit ''http://x/house.jpg'')
                              [lit ''NOPE''] None)
                         (run (take 7 example_actions) initial_system)))) = 2"
    using T [of example_env _ "lit ''http://x/house.jpg''" "[lit ''NOPE'']" None _ _
          "take 7 example_actions" 0,
        THEN conjunct2, THEN conjunct2, THEN conjunct2, THEN conjunct2, THEN conjunct2,
        THEN conjunct2, THEN conjunct1]
      example_stored
    by (simp add: example_processImage)
  have nd: "\<not> displaces (lit ''req_2'')
      (ProcessImage example_env (lit ''http://x/house.jpg'') [lit ''NOPE''] None)"
    using example_ids by (simp add: example_processImage)
  have d: "getResult (proc (step (ProcessImage example_env (lit ''http://x/house.jpg'')
                              [lit ''NOPE''] None)
                         (run (take 7 example_actions) initial_system))) (lit ''req_2'')
       = getResult (proc (run (take 7 example_actions) initial_system)) (lit ''req_2'')"
    using T [of _ _ _ _ _ "lit ''req_2''" "run (take 7 example_actions) initial_system" _ _
          "ProcessImage example_env (lit ''http://x/house.jpg'') [lit ''NOPE''] None",
        THEN conjunct2, THEN conjunct2, THEN conjunct2, THEN conjunct2, THEN conjunct2,
        THEN conjunct2, THEN conjunct2, THEN conjunct1] nd
    by blast
  have e: "results (proc (step (Resume 2) (run example_actions initial_system)))
       = results (proc (run example_actions initial_system))"
    using T [of _ _ _ _ _ _ "run example_actions initial_system" _ _ "Resume 2",
        THEN conjunct2, THEN conjunct2, THEN conjunct2, THEN conjunct2, THEN conjunct2,
        THEN conjunct2, THEN conjunct2, THEN conjunct2, THEN conjunct1]
    by simp
  have g: "results (proc (step ClearCache (run example_actions initial_system))) = []"
    using T [of _ _ _ _ _ _ "run example_actions initial_system",
        THEN conjunct2, THEN conjunct2, THEN conjunct2, THEN conjunct2, THEN conjunct2,
        THEN conjunct2, THEN conjunct2, THEN conjunct2, THEN conjunct2, THEN conjunct2] .
  show ?thesis using a b c d e g by (intro conjI) simp_all
qed

text \<open>
  The claim as first stated has every call add a new entry and no public
  operation remove a stored result. \<^verbatim>\<open>clearCache\<close> is public and removes them
  all; and a call of \<^verbatim>\<open>processImage\<close> that draws the id of a stored result (the
  id is a clock reading and seven random digits) adds no entry and puts its
  own result in the place of the stored one.
\<close>

theorem clearCache_removes_counterexample:
  "getResult (snd (processImage example_env (lit ''http://x/house.jpg'') [lit ''ND-050''] None
                     new_ImageProcessor)) (lit ''req_1'') = Some 0
   \<and> getResult (clearCache (snd (processImage example_env (lit ''http://x/house.jpg'')
                     [lit ''ND-050''] None new_ImageProcessor))) (lit ''req_1'') = None
   \<and> length (results (clearCache (snd (processImage example_env (lit ''http://x/house.jpg'')
                     [lit ''ND-050''] None new_ImageProcessor))))
     < length (results (snd (processImage example_env (lit ''http://x/house.jpg'')
                     [lit ''ND-050''] None new_ImageProcessor)))
   \<and> length (results (snd (processImage example_env (lit ''http://x/house.jpg'') [lit ''NOPE'']
                 None (snd (processImage example_env (lit ''http://x/house.jpg'')
                     [lit ''ND-050''] None new_ImageProcessor)))))
     = length (results (snd (processImage example_env (lit ''http://x/house.jpg'')
                     [lit ''ND-050''] None new_ImageProcessor)))
   \<and> getResult (snd (processImage example_env (lit ''http://x/house.jpg'') [lit ''NOPE'']
                 None (snd (processImage example_env (lit ''http://x/house.jpg'')
                     [lit ''ND-050''] None new_ImageProcessor)))) (lit ''req_1'') = Some 1"
  by (simp add: processImage_def register_request_def executeImageProcessing_def
      store_images_def set_completed_def set_failed_def new_ImageProcessor_def Let_def
      getResult_def clearCache_def example_env_def split: sum.split)

subsection \<open>Statistics\<close>

lemma status_partition:
  "\<forall>x \<in> set xs. status x \<noteq> Pending \<Longrightarrow>
   length xs = length (filter (\<lambda>r. status r = Completed) xs)
             + length (filter (\<lambda>r. status r = Failed) xs)
             + length (filter (\<lambda>r. status r = Processing) xs)"
proof (induction xs)
  case Nil
  then show ?case by simp
next
  case (Cons x xs)
  then show ?case by (cases "status x") simp_all
qed

lemma wf_stored_not_pending:
  "wf_system sys \<Longrightarrow> (rid, r) \<in> set (results (proc sys)) \<Longrightarrow>
   status (heap (proc sys) r) \<noteq> Pending"
  by (fastforce simp: wf_system_def)

text \<open>
  C10. In every state that a history of the processor leads to, calls in flight
  included, the statistics satisfy totalRequests = completedRequests +
  failedRequests + processingRequests: no stored result has status \<^verbatim>\<open>pending\<close>,
  and \<^verbatim>\<open>getStatus\<close> never answers \<^verbatim>\<open>pending\<close>.
\<close>

theorem getStatistics_partition:
  "totalRequests (getStatistics (proc (run as initial_system))) =
     completedRequests (getStatistics (proc (run as initial_system)))
     + failedRequests (getStatistics (proc (run as initial_system)))
     + processingRequests (getStatistics (proc (run as initial_system)))
   \<and> (\<forall>(rid, r) \<in> set (results (proc (run as initial_system))).
         status (heap (proc (run as initial_system)) r) \<noteq> Pending)
   \<and> (\<forall>rid. getStatus (proc (run as initial_system)) rid \<noteq> Some Pending)"
proof -
  let ?s = "proc (run as initial_system)"
  have wf: "wf_system (run as initial_system)" by (rule wf_reachable)
  have np: "\<forall>(rid, r) \<in> set (results ?s). status (heap ?s r) \<noteq> Pending"
    using wf_stored_not_pending [OF wf] by auto
  then have "\<forall>x \<in> set (map (\<lambda>(rid, r). heap ?s r) (results ?s)). status x \<noteq> Pending"
    by auto
  from status_partition [OF this]
  have "totalRequests (getStatistics ?s) =
     completedRequests (getStatistics ?s) + failedRequests (getStatistics ?s)
     + processingRequests (getStatistics ?s)"
    by (simp add: getStatistics_def Let_def)
  moreover have "getStatus ?s rid \<noteq> Some Pending" for rid
    using np by (auto simp: getStatus_def split: option.splits dest!: map_of_SomeD)
  ultimately show ?thesis using np by blast
qed

theorem getStatistics_partition_witness:
  "totalRequests (getStatistics (proc (run example_actions initial_system))) = 3
   \<and> completedRequests (getStatistics (proc (run example_actions initial_system))) = 1
   \<and> failedRequests (getStatistics (proc (run example_actions initial_system))) = 1
   \<and> processingRequests (getStatistics (proc (run example_actions initial_system))) = 1
   \<and> getStatus (proc (run example_actions initial_system)) (lit ''req_3'') = Some Processing"
proof -
  let ?st = "getStatistics (proc (run example_actions initial_system))"
  have e: "totalRequests ?st = 3" "completedRequests ?st = 1" "failedRequests ?st = 1"
    using example_run_results by (simp_all add: getStatistics_def)
  have "totalRequests ?st = completedRequests ?st + failedRequests ?st + processingRequests ?st"
    using getStatistics_partition [of example_actions] by (rule conjunct1)
  then have "processingRequests ?st = 1" using e by simp
  moreover have "getStatus (proc (run example_actions initial_system)) (lit ''req_3'')
      = Some Processing"
    using example_run_results example_ids by (simp add: getStatus_def)
  ultimately show ?thesis using e by simp
qed

end
